theory Spec2Isabelle
  imports Main "HOL-Library.AList"
begin

section \<open>Python values and strings\<close>

text \<open>
  A Python \<open>str\<close> is a sequence of Unicode code points and is modelled as a list of
  natural numbers. The ASCII literals of the source are written \<open>ascii ''...''\<close>, the
  Chinese ones as their code points.

  The values a JSON document or a platform reply can hold in a field are \<open>pyval\<close>
  (integers are those a JSON parser yields, whose decimal form Python can write); a
  \<open>Dict[str, Any]\<close> is an association list (Python dictionaries keep insertion order).
\<close>

type_synonym pystr = "nat list"

definition ascii :: "string \<Rightarrow> pystr" where
  "ascii s = map of_char s"

datatype pyval = PNone | PBool bool | PInt int | PStr pystr

type_synonym pydict = "(pystr \<times> pyval) list"

text \<open>\<open>d.get(k)\<close> and \<open>d.get(k, default)\<close>.\<close>

definition dict_get :: "pydict \<Rightarrow> pystr \<Rightarrow> pyval" where
  "dict_get d k = (case map_of d k of None \<Rightarrow> PNone | Some v \<Rightarrow> v)"

definition dict_get_default :: "pydict \<Rightarrow> pystr \<Rightarrow> pyval \<Rightarrow> pyval" where
  "dict_get_default d k dflt = (case map_of d k of None \<Rightarrow> dflt | Some v \<Rightarrow> v)"

text \<open>Truth value of a Python object in a condition.\<close>

fun truthy :: "pyval \<Rightarrow> bool" where
  "truthy PNone = False"
| "truthy (PBool b) = b"
| "truthy (PInt i) = (i \<noteq> 0)"
| "truthy (PStr s) = (s \<noteq> [])"

text \<open>Decimal rendering of integers, as \<open>str(n)\<close> and an f-string do.\<close>

definition digit_char :: "nat \<Rightarrow> nat" where
  "digit_char d = 48 + d"

fun str_nat :: "nat \<Rightarrow> pystr" where
  "str_nat n = (if n < 10 then [digit_char n] else str_nat (n div 10) @ [digit_char (n mod 10)])"

declare str_nat.simps [simp del]

definition str_int :: "int \<Rightarrow> pystr" where
  "str_int i = (if i < 0 then of_char CHR ''-'' # str_nat (nat (- i)) else str_nat (nat i))"

text \<open>What \<open>f"{v}"\<close> puts into the string.\<close>

fun py_str :: "pyval \<Rightarrow> pystr" where
  "py_str PNone = ascii ''None''"
| "py_str (PBool b) = (if b then ascii ''True'' else ascii ''False'')"
| "py_str (PInt i) = str_int i"
| "py_str (PStr s) = s"

subsection \<open>\<open>str.split\<close>\<close>

text \<open>\<open>s.split(c)\<close>: the fields between the occurrences of \<open>c\<close>; never an empty list.\<close>

fun split_on :: "nat \<Rightarrow> pystr \<Rightarrow> pystr list" where
  "split_on c [] = [[]]"
| "split_on c (x # xs) =
     (if x = c then [] # split_on c xs
      else (case split_on c xs of
              [] \<Rightarrow> [[x]]
            | y # ys \<Rightarrow> (x # y) # ys))"

subsection \<open>\<open>int\<close> of a string and the digit class of a pattern\<close>

text \<open>
  What the interpreter brings along and the repository does not hold: the two tables of
  the Unicode database that \<open>int\<close> and the pattern class \<^verbatim>\<open>\d\<close> consult (the decimal digit
  value of a code point, and whether a code point is white space), and the limit on the
  number of digits \<open>int\<close> converts (\<open>sys.get_int_max_str_digits()\<close>, 4300 unless changed,
  0 for no limit, as in the versions without it). They are a parameter of the model; the
  tables are only consulted for code points from 127 on, the ASCII range being fixed.
\<close>

record python =
  todecimal :: "nat \<Rightarrow> nat option"
  isspace :: "nat \<Rightarrow> bool"
  max_str_digits :: nat

definition ascii_digit :: "nat \<Rightarrow> bool" where
  "ascii_digit c = (48 \<le> c \<and> c \<le> 57)"

text \<open>The blanks the C parser skips: space, tab, line feed, vertical tab, form feed, return.\<close>

definition c_isspace :: "nat \<Rightarrow> bool" where
  "c_isspace c = (c = 32 \<or> (9 \<le> c \<and> c \<le> 13))"

definition decimal_value :: "python \<Rightarrow> nat \<Rightarrow> nat option" where
  "decimal_value py c =
     (if c < 127 then (if ascii_digit c then Some (c - 48) else None)
      else (case todecimal py c of
              None \<Rightarrow> None
            | Some d \<Rightarrow> if d < 10 then Some d else None))"

text \<open>\<^verbatim>\<open>\d\<close> in a pattern over \<open>str\<close>: any decimal digit of the Unicode database.\<close>

definition is_decimal :: "python \<Rightarrow> nat \<Rightarrow> bool" where
  "is_decimal py c = (decimal_value py c \<noteq> None)"

text \<open>
  \<open>int(s)\<close> in base ten first rewrites the string to ASCII: a code point below 127 is
  kept (so the controls 28 to 31 stay what they are), a Unicode blank from 127 on becomes
  a space, a decimal digit becomes its ASCII digit, and anything else becomes \<open>?\<close>, which
  the parser rejects wherever it stands. The parser then skips blanks at both ends, takes
  a sign, and reads decimal digits, where one underscore may stand between two digits.
  A text that is not of this form, or that has more digits than the limit, raises
  \<open>ValueError\<close>, which is \<open>None\<close> here.
\<close>

definition to_ascii :: "python \<Rightarrow> nat \<Rightarrow> nat" where
  "to_ascii py c =
     (if c < 127 then c
      else if isspace py c then 32
      else (case decimal_value py c of None \<Rightarrow> 63 | Some d \<Rightarrow> 48 + d))"

definition strip :: "pystr \<Rightarrow> pystr" where
  "strip s = rev (dropWhile c_isspace (rev (dropWhile c_isspace s)))"

fun dec_digits :: "nat \<Rightarrow> pystr \<Rightarrow> nat option" where
  "dec_digits acc [] = None"
| "dec_digits acc (c # cs) =
     (if ascii_digit c then
        (case cs of
           [] \<Rightarrow> Some (10 * acc + (c - 48))
         | u # rest \<Rightarrow>
             if u = of_char CHR ''_'' then dec_digits (10 * acc + (c - 48)) rest
             else dec_digits (10 * acc + (c - 48)) cs)
      else None)"

text \<open>The limit is looked at only for a text of more than 640 digits.\<close>

definition within_digit_limit :: "python \<Rightarrow> pystr \<Rightarrow> bool" where
  "within_digit_limit py body =
     (\<not> (640 < length (filter ascii_digit body)
         \<and> 0 < max_str_digits py
         \<and> max_str_digits py < length (filter ascii_digit body)))"

definition parse_int :: "python \<Rightarrow> bool \<Rightarrow> pystr \<Rightarrow> int option" where
  "parse_int py negative body =
     (case dec_digits 0 body of
        None \<Rightarrow> None
      | Some n \<Rightarrow>
          if within_digit_limit py body then Some (if negative then - int n else int n)
          else None)"

definition py_int :: "python \<Rightarrow> pystr \<Rightarrow> int option" where
  "py_int py s =
     (case strip (map (to_ascii py) s) of
        [] \<Rightarrow> None
      | c # cs \<Rightarrow>
          if c = of_char CHR ''-'' then parse_int py True cs
          else if c = of_char CHR ''+'' then parse_int py False cs
          else parse_int py False (c # cs))"

section \<open>The helpers shared by both variants\<close>

text \<open>The sentinel for an unknown gender or birthday, and the two gender texts.\<close>

definition unknown :: pystr where
  "unknown = [0x672A, 0x77E5]"

definition male_text :: pystr where
  "male_text = [0x7537]"

definition female_text :: pystr where
  "female_text = [0x5973]"

text \<open>The part of \<open>datetime.now()\<close> the code reads.\<close>

record date =
  year :: int
  month :: int
  day :: int

text \<open>Python's comparison of two pairs: by the first component, then by the second.\<close>

definition tuple_less :: "int \<times> int \<Rightarrow> int \<times> int \<Rightarrow> bool" where
  "tuple_less a b = (fst a < fst b \<or> (fst a = fst b \<and> snd a < snd b))"

subsection \<open>The newer variant\<close>

definition parse_birthday :: "pydict \<Rightarrow> pystr" where
  "parse_birthday stranger_info =
     (if truthy (dict_get stranger_info (ascii ''birthday_year''))
         \<and> truthy (dict_get stranger_info (ascii ''birthday_month''))
         \<and> truthy (dict_get stranger_info (ascii ''birthday_day''))
      then py_str (dict_get stranger_info (ascii ''birthday_year'')) @ ascii ''-''
           @ py_str (dict_get stranger_info (ascii ''birthday_month'')) @ ascii ''-''
           @ py_str (dict_get stranger_info (ascii ''birthday_day''))
      else unknown)"

text \<open>
  \<open>calculate_age\<close>: every exception raised inside the \<open>try\<close> (a field that \<open>int\<close> rejects,
  a birthday that is not a string and so has no \<open>split\<close>) ends in \<open>return 0\<close>.
\<close>

fun calculate_age :: "python \<Rightarrow> date \<Rightarrow> pyval \<Rightarrow> int" where
  "calculate_age py today (PStr birthday) =
     (if birthday = unknown then 0
      else (case split_on (of_char CHR ''-'') birthday of
              [p0, p1, p2] \<Rightarrow>
                (case py_int py p0 of
                   None \<Rightarrow> 0
                 | Some y \<Rightarrow>
                     (case py_int py p1 of
                        None \<Rightarrow> 0
                      | Some m \<Rightarrow>
                          (case py_int py p2 of
                             None \<Rightarrow> 0
                           | Some d \<Rightarrow>
                               (if tuple_less (month today, day today) (m, d)
                                then year today - y - 1
                                else year today - y))))
            | _ \<Rightarrow> 0))"
| "calculate_age py today _ = 0"

definition get_gender_text :: "pyval \<Rightarrow> pystr" where
  "get_gender_text gender =
     (if gender = PStr (ascii ''male'') then male_text
      else if gender = PStr (ascii ''female'') then female_text
      else if gender = PStr (ascii ''unknown'') then unknown
      else unknown)"

subsection \<open>The older variant (\<open>src/main.py\<close>)\<close>

definition main_parse_birthday :: "pydict \<Rightarrow> pystr" where
  "main_parse_birthday stranger_info =
     (if truthy (dict_get stranger_info (ascii ''birthday_year''))
         \<and> truthy (dict_get stranger_info (ascii ''birthday_month''))
         \<and> truthy (dict_get stranger_info (ascii ''birthday_day''))
      then py_str (dict_get stranger_info (ascii ''birthday_year'')) @ ascii ''-''
           @ py_str (dict_get stranger_info (ascii ''birthday_month'')) @ ascii ''-''
           @ py_str (dict_get stranger_info (ascii ''birthday_day''))
      else unknown)"

fun main_calculate_age :: "python \<Rightarrow> date \<Rightarrow> pyval \<Rightarrow> int" where
  "main_calculate_age py today (PStr birthday) =
     (if birthday = unknown then 0
      else (case split_on (of_char CHR ''-'') birthday of
              [p0, p1, p2] \<Rightarrow>
                (case py_int py p0 of
                   None \<Rightarrow> 0
                 | Some y \<Rightarrow>
                     (case py_int py p1 of
                        None \<Rightarrow> 0
                      | Some m \<Rightarrow>
                          (case py_int py p2 of
                             None \<Rightarrow> 0
                           | Some d \<Rightarrow>
                               (if tuple_less (month today, day today) (m, d)
                                then year today - y - 1
                                else year today - y))))
            | _ \<Rightarrow> 0))"
| "main_calculate_age py today _ = 0"

definition main_get_gender_text :: "pyval \<Rightarrow> pystr" where
  "main_get_gender_text gender =
     (if gender = PStr (ascii ''male'') then male_text
      else if gender = PStr (ascii ''female'') then female_text
      else if gender = PStr (ascii ''unknown'') then unknown
      else unknown)"

section \<open>The newer variant: formatting a record for the prompt\<close>

text \<open>The labels and texts of the source, as code points.\<close>

definition label_qq :: pystr where
  "label_qq = [0x7528, 0x6237, 81, 81, 0x53F7, 58, 32]"

definition label_nickname :: pystr where
  "label_nickname = [0x6635, 0x79F0, 58, 32]"

definition label_gender :: pystr where
  "label_gender = [0x6027, 0x522B, 58, 32]"

definition label_birthday :: pystr where
  "label_birthday = [0x751F, 0x65E5, 58, 32]"

definition label_age :: pystr where
  "label_age = [0x5E74, 0x9F84, 58, 32]"

definition years_old :: pystr where
  "years_old = [0x5C81]"

definition label_role :: pystr where
  "label_role = [0x7FA4, 0x8EAB, 0x4EFD, 58, 32]"

definition label_title :: pystr where
  "label_title = [0x7FA4, 0x5934, 0x8854, 58, 32]"

definition part_separator :: pystr where
  "part_separator = [0xFF0C]"

definition owner_text :: pystr where
  "owner_text = [0x7FA4, 0x4E3B]"

definition admin_text :: pystr where
  "admin_text = [0x7BA1, 0x7406, 0x5458]"

definition member_text :: pystr where
  "member_text = [0x6210, 0x5458]"

definition no_title :: pystr where
  "no_title = [0x65E0]"

definition get_group_role_text :: "pyval \<Rightarrow> pystr" where
  "get_group_role_text role =
     (if role = PStr (ascii ''owner'') then owner_text
      else if role = PStr (ascii ''admin'') then admin_text
      else if role = PStr (ascii ''member'') then member_text
      else member_text)"

text \<open>\<open>sep.join(parts)\<close>.\<close>

fun join :: "pystr \<Rightarrow> pystr list \<Rightarrow> pystr" where
  "join sep [] = []"
| "join sep [p] = p"
| "join sep (p # q # ps) = p @ sep @ join sep (q # ps)"

text \<open>
  The list \<open>prompt_parts\<close> that \<open>format_user_info_for_prompt\<close> builds, in the order of its
  \<open>append\<close> calls; the function returns the parts joined.
\<close>

definition prompt_parts :: "python \<Rightarrow> date \<Rightarrow> pydict \<Rightarrow> bool \<Rightarrow> pystr list" where
  "prompt_parts py today user_info is_group =
     (let birthday = dict_get_default user_info (ascii ''birthday'') (PStr unknown);
          group_role = dict_get user_info (ascii ''group_role'');
          group_title = dict_get_default user_info (ascii ''group_title'') (PStr [])
      in
        [label_qq @ py_str (dict_get_default user_info (ascii ''qq_number'') (PStr unknown)),
         label_nickname @ py_str (dict_get_default user_info (ascii ''nickname'') (PStr unknown))]
        @ (if dict_get user_info (ascii ''gender'') \<noteq> PStr unknown
           then [label_gender @ py_str (dict_get user_info (ascii ''gender''))] else [])
        @ [label_birthday @ py_str birthday]
        @ (if birthday \<noteq> PStr unknown
           then (if calculate_age py today birthday > 0
                 then [label_age @ str_int (calculate_age py today birthday) @ years_old] else [])
           else [])
        @ (if is_group
           then (if truthy group_role
                 then [label_role @ get_group_role_text group_role] else [])
                @ (if truthy group_title \<and> group_title \<noteq> PStr no_title
                   then [label_title @ py_str group_title] else [])
           else []))"

definition format_user_info_for_prompt :: "python \<Rightarrow> date \<Rightarrow> pydict \<Rightarrow> bool \<Rightarrow> pystr" where
  "format_user_info_for_prompt py today user_info is_group =
     join part_separator (prompt_parts py today user_info is_group)"

section \<open>The newer variant: rewriting nickname placeholders\<close>

text \<open>
  The pattern \<^verbatim>\<open>\[User ID: (\d+), Nickname: ([^\]]+)\]\<close> tried at the head of a text.
  The digit class matches every decimal digit of the Unicode database, the negated class
  every code point but \<open>]\<close>. Both repetitions are followed by a character they cannot
  match, so the greedy match is the only one: all the digits, then all the characters up
  to the first \<open>]\<close>. The result is group 1, group 2 and the text after the match.
\<close>

fun strip_prefix :: "pystr \<Rightarrow> pystr \<Rightarrow> pystr option" where
  "strip_prefix [] s = Some s"
| "strip_prefix (p # ps) [] = None"
| "strip_prefix (p # ps) (c # cs) = (if p = c then strip_prefix ps cs else None)"

definition match_placeholder :: "python \<Rightarrow> pystr \<Rightarrow> (pystr \<times> pystr \<times> pystr) option" where
  "match_placeholder py s =
     (case strip_prefix (ascii ''[User ID: '') s of
        None \<Rightarrow> None
      | Some s1 \<Rightarrow>
          (if takeWhile (is_decimal py) s1 = [] then None
           else (case strip_prefix (ascii '', Nickname: '') (dropWhile (is_decimal py) s1) of
                   None \<Rightarrow> None
                 | Some s2 \<Rightarrow>
                     (if takeWhile (\<lambda>c. c \<noteq> of_char CHR '']'') s2 = [] then None
                      else (case dropWhile (\<lambda>c. c \<noteq> of_char CHR '']'') s2 of
                              [] \<Rightarrow> None
                            | c # rest \<Rightarrow>
                                Some (takeWhile (is_decimal py) s1,
                                      takeWhile (\<lambda>c. c \<noteq> of_char CHR '']'') s2, rest))))))"

text \<open>The text of a placeholder, which is also what the callback builds.\<close>

definition placeholder :: "pystr \<Rightarrow> pystr \<Rightarrow> pystr" where
  "placeholder qq_number nickname =
     ascii ''[User ID: '' @ qq_number @ ascii '', Nickname: '' @ nickname @ ascii '']''"

type_synonym user_table = "(pystr \<times> pydict) list"

text \<open>\<open>replace_callback\<close>: the replacement for a match with groups \<open>qq_number\<close>, \<open>old_nickname\<close>.\<close>

definition replace_callback :: "user_table \<Rightarrow> pystr \<Rightarrow> pystr \<Rightarrow> pystr" where
  "replace_callback all_user_info qq_number old_nickname =
     (case map_of all_user_info qq_number of
        None \<Rightarrow> placeholder qq_number old_nickname
      | Some user_info \<Rightarrow>
          if user_info = [] then placeholder qq_number old_nickname
          else if dict_get_default user_info (ascii ''nickname'') (PStr []) = PStr old_nickname
          then placeholder qq_number old_nickname
          else if truthy (dict_get_default user_info (ascii ''nickname'') (PStr []))
          then placeholder qq_number (py_str (dict_get_default user_info (ascii ''nickname'') (PStr [])))
          else placeholder qq_number old_nickname)"

lemma strip_prefix_Some: "strip_prefix p s = Some r \<longleftrightarrow> s = p @ r"
  by (induction p s rule: strip_prefix.induct) auto

lemma match_placeholder_text:
  assumes "match_placeholder py s = Some (qq_number, nickname, rest)"
  shows "s = placeholder qq_number nickname @ rest"
proof -
  from assms obtain s1 s2 c where
    s1: "strip_prefix (ascii ''[User ID: '') s = Some s1" and
    s2: "strip_prefix (ascii '', Nickname: '') (dropWhile (is_decimal py) s1) = Some s2" and
    q: "qq_number = takeWhile (is_decimal py) s1" and
    n: "nickname = takeWhile (\<lambda>c. c \<noteq> of_char CHR '']'') s2" and
    r: "dropWhile (\<lambda>c. c \<noteq> of_char CHR '']'') s2 = c # rest"
    by (auto simp: match_placeholder_def split: option.splits if_splits list.splits)
  have "dropWhile (\<lambda>c. c \<noteq> of_char CHR '']'') s2 \<noteq> []"
    using r by simp
  from hd_dropWhile [OF this] have c: "c = of_char CHR '']''"
    unfolding r by simp
  have "s2 = takeWhile (\<lambda>c. c \<noteq> of_char CHR '']'') s2
             @ dropWhile (\<lambda>c. c \<noteq> of_char CHR '']'') s2"
    by (simp only: takeWhile_dropWhile_id)
  then have "s2 = nickname @ c # rest"
    unfolding r n [symmetric] .
  moreover have "s1 = qq_number @ dropWhile (is_decimal py) s1"
    using q by simp
  ultimately show ?thesis
    using s1 s2 c by (simp add: strip_prefix_Some placeholder_def ascii_def)
qed

lemma match_placeholder_shorter:
  "match_placeholder py s = Some (qq_number, nickname, rest) \<Longrightarrow> length rest < length s"
  by (drule match_placeholder_text) (simp add: placeholder_def ascii_def)

text \<open>
  \<open>re.sub(pattern, replace_callback, text)\<close>: the text is scanned from the left; where the
  pattern matches, the callback's result is written and the scan goes on after the match;
  elsewhere the character is copied. The pattern matches no empty text.
\<close>

function re_sub :: "python \<Rightarrow> user_table \<Rightarrow> pystr \<Rightarrow> pystr" where
  "re_sub py all_user_info [] = []"
| "re_sub py all_user_info (c # cs) =
     (case match_placeholder py (c # cs) of
        None \<Rightarrow> c # re_sub py all_user_info cs
      | Some (qq_number, old_nickname, rest) \<Rightarrow>
          replace_callback all_user_info qq_number old_nickname
          @ re_sub py all_user_info rest)"
  by pat_completeness auto
termination
  by (relation "measure (\<lambda>(py, t, s). length s)") (auto dest: match_placeholder_shorter)

declare re_sub.simps(2) [simp del]

definition replace_nickname_in_context :: "python \<Rightarrow> user_table \<Rightarrow> pystr \<Rightarrow> pystr" where
  "replace_nickname_in_context py all_user_info pre_text =
     (if all_user_info = [] \<or> pre_text = [] then pre_text
      else re_sub py all_user_info pre_text)"

section \<open>The newer variant: the two files\<close>

text \<open>
  A JSON file on disk is missing, or present with a content that does not parse (among
  others the cut-off text a failed write leaves behind), or it holds a table.

  \<open>load_user_info\<close> and \<open>load_group_info\<close> catch every exception and return the empty
  dictionary: for a missing file, for a content that does not parse, and when opening or
  reading the file fails for a reason outside the program (\<open>read_ok\<close> false).

  \<open>save_user_info\<close> and \<open>save_group_info\<close> open the file with mode \<open>w\<close>, which empties it,
  and then let \<open>json.dump\<close> write into it; every exception is caught and logged. When the
  file cannot be opened it stays as it was. When it was opened and the dump raises, for a
  reason outside the program or because a string of the table holds a lone surrogate
  (which the UTF-8 writer refuses, \<open>ensure_ascii\<close> being false), what is left is a cut-off
  text that does not parse.
\<close>

datatype 'a json_file = Absent | Unreadable | Holds 'a

datatype write_outcome = Not_opened | Cut_off | Completed

type_synonym group_table = "(pystr \<times> (pystr \<times> pydict) list) list"

definition is_surrogate :: "nat \<Rightarrow> bool" where
  "is_surrogate c = (0xD800 \<le> c \<and> c \<le> 0xDFFF)"

definition str_encodable :: "pystr \<Rightarrow> bool" where
  "str_encodable s = list_all (\<lambda>c. \<not> is_surrogate c) s"

fun value_encodable :: "pyval \<Rightarrow> bool" where
  "value_encodable (PStr s) = str_encodable s"
| "value_encodable v = True"

definition dict_encodable :: "pydict \<Rightarrow> bool" where
  "dict_encodable d = list_all (\<lambda>kv. str_encodable (fst kv) \<and> value_encodable (snd kv)) d"

definition table_encodable :: "user_table \<Rightarrow> bool" where
  "table_encodable t = list_all (\<lambda>kv. str_encodable (fst kv) \<and> dict_encodable (snd kv)) t"

definition group_table_encodable :: "group_table \<Rightarrow> bool" where
  "group_table_encodable t =
     list_all (\<lambda>kv. str_encodable (fst kv) \<and> table_encodable (snd kv)) t"

definition load_user_info :: "bool \<Rightarrow> user_table json_file \<Rightarrow> user_table" where
  "load_user_info read_ok f =
     (case f of
        Absent \<Rightarrow> []
      | Unreadable \<Rightarrow> []
      | Holds t \<Rightarrow> if read_ok then t else [])"

definition load_group_info :: "bool \<Rightarrow> group_table json_file \<Rightarrow> group_table" where
  "load_group_info read_ok f =
     (case f of
        Absent \<Rightarrow> []
      | Unreadable \<Rightarrow> []
      | Holds t \<Rightarrow> if read_ok then t else [])"

definition save_user_info ::
  "write_outcome \<Rightarrow> user_table \<Rightarrow> user_table json_file \<Rightarrow> user_table json_file" where
  "save_user_info outcome user_info f =
     (case outcome of
        Not_opened \<Rightarrow> f
      | Cut_off \<Rightarrow> Unreadable
      | Completed \<Rightarrow> if table_encodable user_info then Holds user_info else Unreadable)"

definition save_group_info ::
  "write_outcome \<Rightarrow> group_table \<Rightarrow> group_table json_file \<Rightarrow> group_table json_file" where
  "save_group_info outcome group_info f =
     (case outcome of
        Not_opened \<Rightarrow> f
      | Cut_off \<Rightarrow> Unreadable
      | Completed \<Rightarrow> if group_table_encodable group_info then Holds group_info else Unreadable)"

record state =
  user_file :: "user_table json_file"
  group_file :: "group_table json_file"

text \<open>
  What the host hands to a handler: the message event with the replies the platform
  client gives to the two API calls (\<open>None\<close> when the call raises), and what the handler
  reads from its surroundings: the clock, whether a read of each file goes through, and
  how a write of each file ends.
\<close>

record event =
  platform_name :: pystr
  sender_id :: pystr
  sender_name :: pystr
  group_id :: pystr
  timestamp :: pyval
  is_aiocqhttp_event :: bool
  stranger_info_reply :: "pydict option"
  group_member_info_reply :: "pydict option"

record env =
  env_today :: date
  env_now_iso :: pystr
  user_read_ok :: bool
  group_read_ok :: bool
  user_write :: write_outcome
  group_write :: write_outcome

record request =
  system_prompt :: "pystr option"
  req_context :: pystr

text \<open>
  \<open>get_qq_user_info\<close>. An exception inside the outer \<open>try\<close> (an id that \<open>int\<close> rejects, an API
  call that raises) returns the dictionary as it stands at that moment; one inside the
  inner \<open>try\<close> skips the group fields only.
\<close>

definition with_group_fields :: "python \<Rightarrow> event \<Rightarrow> pystr \<Rightarrow> pydict \<Rightarrow> pydict" where
  "with_group_fields py ev qq_number user_info =
     (if group_id ev = [] then user_info
      else (case py_int py (group_id ev) of
              None \<Rightarrow> user_info
            | Some g \<Rightarrow>
                (case py_int py qq_number of
                   None \<Rightarrow> user_info
                 | Some q \<Rightarrow>
                     (case group_member_info_reply ev of
                        None \<Rightarrow> user_info
                      | Some group_member_info \<Rightarrow>
                          AList.update (ascii ''group_title'')
                            (if truthy (dict_get_default group_member_info (ascii ''title'') (PStr []))
                             then dict_get_default group_member_info (ascii ''title'') (PStr [])
                             else PStr no_title)
                            (AList.update (ascii ''group_role'')
                               (dict_get_default group_member_info (ascii ''role'') (PStr (ascii ''member'')))
                               user_info)))))"

definition get_qq_user_info :: "python \<Rightarrow> event \<Rightarrow> pystr \<Rightarrow> bool \<Rightarrow> pydict" where
  "get_qq_user_info py ev qq_number update_user_info =
     (let user_info =
            [((ascii ''qq_number''), PStr qq_number), ((ascii ''timestamp''), timestamp ev)]
            @ (if update_user_info then [((ascii ''nickname''), PStr (sender_name ev))] else [])
      in if platform_name ev \<noteq> (ascii ''aiocqhttp'') then user_info
         else if \<not> is_aiocqhttp_event ev then user_info
         else if update_user_info then
           (case py_int py qq_number of
              None \<Rightarrow> user_info
            | Some q \<Rightarrow>
                (case stranger_info_reply ev of
                   None \<Rightarrow> user_info
                 | Some stranger_info \<Rightarrow>
                     with_group_fields py ev qq_number
                       (AList.update (ascii ''birthday'') (PStr (parse_birthday stranger_info))
                          (AList.update (ascii ''gender'')
                             (PStr (get_gender_text
                                      (dict_get_default stranger_info (ascii ''sex'') (PStr (ascii ''unknown'')))))
                             user_info))))
         else with_group_fields py ev qq_number user_info)"

section \<open>The newer variant: the request hook\<close>

definition prompt_head :: pystr where
  "prompt_head = [0x5F53, 0x524D, 0x5BF9, 0x8BDD, 0x7528, 0x6237, 0x4FE1, 0x606F, 58, 32]"

definition prompt_address :: pystr where
  "prompt_address = [0x3002, 0x8BF7, 0x79F0, 0x547C, 0x7528, 0x6237, 0x4E3A]"

definition full_stop :: pystr where
  "full_stop = [0x3002]"

definition user_text :: pystr where
  "user_text = [0x7528, 0x6237]"

text \<open>The group branch of the hook: the member's entry is written anew on every message.\<close>

definition record_group_member ::
  "pystr \<Rightarrow> pystr \<Rightarrow> pystr \<Rightarrow> pydict \<Rightarrow> group_table \<Rightarrow> group_table" where
  "record_group_member now_iso gid qq_number user_info all_group_info =
     (let groups = (if map_of all_group_info gid = None
                    then AList.update gid [] all_group_info else all_group_info);
          members = (case map_of groups gid of None \<Rightarrow> [] | Some m \<Rightarrow> m);
          group_info =
            [((ascii ''qq_number''), PStr qq_number),
             ((ascii ''group_id''), PStr gid),
             ((ascii ''group_role''), dict_get_default user_info (ascii ''group_role'') (PStr (ascii ''member''))),
             ((ascii ''group_title''), dict_get_default user_info (ascii ''group_title'') (PStr no_title)),
             ((ascii ''nickname''), dict_get_default user_info (ascii ''nickname'') (PStr unknown)),
             ((ascii ''timestamp''), PStr now_iso)]
      in AList.update gid (AList.update qq_number group_info members) groups)"

text \<open>
  \<open>on_llm_request_hook\<close>. The lookup \<open>all_user_info[qq_number]\<close> comes after the record
  has been put there, so its \<open>KeyError\<close> branch, which would end the hook in the outer
  \<open>except\<close>, is never taken.
\<close>

definition on_llm_request_hook ::
  "python \<Rightarrow> env \<Rightarrow> event \<Rightarrow> request \<Rightarrow> state \<Rightarrow> state \<times> request" where
  "on_llm_request_hook py e ev req st =
     (if platform_name ev \<noteq> (ascii ''aiocqhttp'') then (st, req)
      else
        (let qq_number = sender_id ev;
             is_group = (group_id ev \<noteq> []);
             loaded = load_user_info (user_read_ok e) (user_file st);
             all_group_info = load_group_info (group_read_ok e) (group_file st);
             all_user_info =
               (if map_of loaded qq_number = None
                then AList.update qq_number (get_qq_user_info py ev qq_number True) loaded
                else loaded);
             users_after =
               (if map_of loaded qq_number = None
                then save_user_info (user_write e) all_user_info (user_file st)
                else user_file st)
         in case map_of all_user_info qq_number of
              None \<Rightarrow> (st\<lparr>user_file := users_after\<rparr>, req)
            | Some user_info \<Rightarrow>
                (let groups_after =
                       (if is_group
                        then save_group_info (group_write e)
                               (record_group_member (env_now_iso e) (group_id ev) qq_number
                                  user_info all_group_info)
                               (group_file st)
                        else group_file st);
                     user_prompt = format_user_info_for_prompt py (env_today e) user_info is_group;
                     req1 = req\<lparr>req_context :=
                                  replace_nickname_in_context py all_user_info (req_context req)\<rparr>
                 in (\<lparr>user_file = users_after, group_file = groups_after\<rparr>,
                     if user_prompt \<noteq> []
                     then req1\<lparr>system_prompt :=
                            Some (prompt_head @ user_prompt @ prompt_address
                                  @ py_str (dict_get_default user_info (ascii ''nickname'') (PStr user_text))
                                  @ full_stop
                                  @ (case system_prompt req of None \<Rightarrow> [] | Some p \<Rightarrow> p))\<rparr>
                     else req1))))"

section \<open>The newer variant: the edit commands\<close>

text \<open>
  Each command yields one message. The messages are kept apart by what they say: that the
  sender has no record, that the new value was rejected (with the reason the source puts
  into its \<open>ValueError\<close>), or that the field was updated to the given value.
\<close>

datatype birthday_error =
  Wrong_format | Not_an_integer | Unreasonable_year | Unreasonable_month | Unreasonable_day

datatype reply =
  No_record
| Birthday_rejected birthday_error
| Gender_rejected
| Nickname_updated pystr
| Birthday_updated pystr
| Gender_updated pystr

fun is_error_reply :: "reply \<Rightarrow> bool" where
  "is_error_reply No_record = True"
| "is_error_reply (Birthday_rejected e) = True"
| "is_error_reply Gender_rejected = True"
| "is_error_reply (Nickname_updated v) = False"
| "is_error_reply (Birthday_updated v) = False"
| "is_error_reply (Gender_updated v) = False"

text \<open>The inner \<open>try\<close> of \<open>update_birthday\<close>: the first check that raises decides.\<close>

definition validate_birthday :: "python \<Rightarrow> int \<Rightarrow> pystr \<Rightarrow> birthday_error option" where
  "validate_birthday py current_year new_birthday =
     (case split_on (of_char CHR ''-'') new_birthday of
        [p0, p1, p2] \<Rightarrow>
          (case py_int py p0 of
             None \<Rightarrow> Some Not_an_integer
           | Some y \<Rightarrow>
               (case py_int py p1 of
                  None \<Rightarrow> Some Not_an_integer
                | Some m \<Rightarrow>
                    (case py_int py p2 of
                       None \<Rightarrow> Some Not_an_integer
                     | Some d \<Rightarrow>
                         if \<not> (1900 \<le> y \<and> y \<le> current_year) then Some Unreasonable_year
                         else if \<not> (1 \<le> m \<and> m \<le> 12) then Some Unreasonable_month
                         else if \<not> (1 \<le> d \<and> d \<le> 31) then Some Unreasonable_day
                         else None)))
      | _ \<Rightarrow> Some Wrong_format)"

text \<open>\<open>all_user_info[qq_number][field] = value\<close> followed by \<open>save_user_info\<close>.\<close>

definition store_field ::
  "env \<Rightarrow> user_table \<Rightarrow> pystr \<Rightarrow> pydict \<Rightarrow> pystr \<Rightarrow> pyval \<Rightarrow> state \<Rightarrow> state" where
  "store_field e all_user_info qq_number user_info field v st =
     st\<lparr>user_file :=
          save_user_info (user_write e)
            (AList.update qq_number (AList.update field v user_info) all_user_info)
            (user_file st)\<rparr>"

definition update_nickname :: "env \<Rightarrow> event \<Rightarrow> pystr \<Rightarrow> state \<Rightarrow> reply \<times> state" where
  "update_nickname e ev new_nickname st =
     (let all_user_info = load_user_info (user_read_ok e) (user_file st)
      in case map_of all_user_info (sender_id ev) of
           None \<Rightarrow> (No_record, st)
         | Some user_info \<Rightarrow>
             (Nickname_updated new_nickname,
              store_field e all_user_info (sender_id ev) user_info (ascii ''nickname'')
                (PStr new_nickname) st))"

definition update_birthday ::
  "python \<Rightarrow> env \<Rightarrow> event \<Rightarrow> pystr \<Rightarrow> state \<Rightarrow> reply \<times> state" where
  "update_birthday py e ev new_birthday st =
     (let all_user_info = load_user_info (user_read_ok e) (user_file st)
      in case map_of all_user_info (sender_id ev) of
           None \<Rightarrow> (No_record, st)
         | Some user_info \<Rightarrow>
             (case validate_birthday py (year (env_today e)) new_birthday of
                Some err \<Rightarrow> (Birthday_rejected err, st)
              | None \<Rightarrow>
                  (Birthday_updated new_birthday,
                   store_field e all_user_info (sender_id ev) user_info (ascii ''birthday'')
                     (PStr new_birthday) st)))"

definition update_gender :: "env \<Rightarrow> event \<Rightarrow> pystr \<Rightarrow> state \<Rightarrow> reply \<times> state" where
  "update_gender e ev new_gender st =
     (let all_user_info = load_user_info (user_read_ok e) (user_file st)
      in case map_of all_user_info (sender_id ev) of
           None \<Rightarrow> (No_record, st)
         | Some user_info \<Rightarrow>
             (if new_gender \<notin> set [male_text, female_text] then (Gender_rejected, st)
              else (Gender_updated new_gender,
                    store_field e all_user_info (sender_id ev) user_info (ascii ''gender'')
                      (PStr new_gender) st)))"

section \<open>Runs of the plugin\<close>

datatype operation =
  Llm_request env event request
| Nickname_command env event pystr
| Birthday_command env event pystr
| Gender_command env event pystr

fun apply_operation :: "python \<Rightarrow> operation \<Rightarrow> state \<Rightarrow> state" where
  "apply_operation py (Llm_request e ev req) st = fst (on_llm_request_hook py e ev req st)"
| "apply_operation py (Nickname_command e ev v) st = snd (update_nickname e ev v st)"
| "apply_operation py (Birthday_command e ev v) st = snd (update_birthday py e ev v st)"
| "apply_operation py (Gender_command e ev v) st = snd (update_gender e ev v st)"

fun run :: "python \<Rightarrow> operation list \<Rightarrow> state \<Rightarrow> state" where
  "run py [] st = st"
| "run py (operation # operations) st = run py operations (apply_operation py operation st)"

fun operation_env :: "operation \<Rightarrow> env" where
  "operation_env (Llm_request e ev req) = e"
| "operation_env (Nickname_command e ev v) = e"
| "operation_env (Birthday_command e ev v) = e"
| "operation_env (Gender_command e ev v) = e"

text \<open>
  The user ids that have a record in the user-info table: the keys of the table the file
  holds.
\<close>

definition user_ids :: "state \<Rightarrow> pystr set" where
  "user_ids st = fst ` set (load_user_info True (user_file st))"

text \<open>
  An operation goes through undisturbed when its read of the user-info file is not made to
  fail from outside and it does not leave a cut-off file behind; a run does when each of
  its operations does, in the state it meets.
\<close>

definition undisturbed :: "python \<Rightarrow> operation \<Rightarrow> state \<Rightarrow> bool" where
  "undisturbed py operation st =
     (user_read_ok (operation_env operation)
      \<and> \<not> (user_file st \<noteq> Unreadable
           \<and> user_file (apply_operation py operation st) = Unreadable))"

fun undisturbed_run :: "python \<Rightarrow> operation list \<Rightarrow> state \<Rightarrow> bool" where
  "undisturbed_run py [] st = True"
| "undisturbed_run py (operation # operations) st =
     (undisturbed py operation st
      \<and> undisturbed_run py operations (apply_operation py operation st))"

section \<open>Notions of the specification\<close>

text \<open>A calendar date written \<open>YYYY-MM-DD\<close>.\<close>

definition leap_year :: "nat \<Rightarrow> bool" where
  "leap_year y = (y mod 4 = 0 \<and> (y mod 400 = 0 \<or> y mod 100 \<noteq> 0))"

definition days_in_month :: "nat \<Rightarrow> nat \<Rightarrow> nat" where
  "days_in_month y m =
     (if m = 2 then (if leap_year y then 29 else 28)
      else if m = 4 \<or> m = 6 \<or> m = 9 \<or> m = 11 then 30
      else 31)"

fun iso_date :: "pystr \<Rightarrow> bool" where
  "iso_date [y1, y2, y3, y4, h1, m1, m2, h2, d1, d2] =
     (list_all ascii_digit [y1, y2, y3, y4, m1, m2, d1, d2]
      \<and> h1 = of_char CHR ''-'' \<and> h2 = of_char CHR ''-''
      \<and> 1 \<le> 10 * (m1 - 48) + (m2 - 48)
      \<and> 10 * (m1 - 48) + (m2 - 48) \<le> 12
      \<and> 1 \<le> 10 * (d1 - 48) + (d2 - 48)
      \<and> 10 * (d1 - 48) + (d2 - 48)
          \<le> days_in_month
               (1000 * (y1 - 48) + 100 * (y2 - 48) + 10 * (y3 - 48) + (y4 - 48))
               (10 * (m1 - 48) + (m2 - 48)))"
| "iso_date s = False"

text \<open>
  Three fields separated by \<open>-\<close> that \<open>int\<close> reads, with the year between 1900 and the
  current year, the month between 1 and 12 and the day between 1 and 31.
\<close>

definition plausible_birthday :: "python \<Rightarrow> int \<Rightarrow> pystr \<Rightarrow> bool" where
  "plausible_birthday py current_year s =
     (case map (py_int py) (split_on (of_char CHR ''-'') s) of
        [Some y, Some m, Some d] \<Rightarrow>
          1900 \<le> y \<and> y \<le> current_year \<and> 1 \<le> m \<and> m \<le> 12 \<and> 1 \<le> d \<and> d \<le> 31
      | _ \<Rightarrow> False)"

text \<open>
  The nickname a placeholder for \<open>qq_number\<close> shows after the rewrite: the one stored under
  that id when there is one and it is not empty, else the one the placeholder had.
\<close>

definition latest_nickname :: "user_table \<Rightarrow> pystr \<Rightarrow> pystr \<Rightarrow> pystr" where
  "latest_nickname all_user_info qq_number old_nickname =
     (case map_of all_user_info qq_number of
        None \<Rightarrow> old_nickname
      | Some user_info \<Rightarrow>
          (case map_of user_info (ascii ''nickname'') of
             None \<Rightarrow> old_nickname
           | Some v \<Rightarrow> if truthy v then py_str v else old_nickname))"

text \<open>The two groups of the pattern: one or more digits; one or more characters other than \<open>]\<close>.\<close>

definition id_digits :: "python \<Rightarrow> pystr \<Rightarrow> bool" where
  "id_digits py s = (s \<noteq> [] \<and> list_all (is_decimal py) s)"

definition nickname_text :: "pystr \<Rightarrow> bool" where
  "nickname_text s = (s \<noteq> [] \<and> list_all (\<lambda>c. c \<noteq> of_char CHR '']'') s)"

text \<open>No placeholder begins inside \<open>pre\<close> when \<open>rest\<close> follows it.\<close>

fun plain_before :: "python \<Rightarrow> pystr \<Rightarrow> pystr \<Rightarrow> bool" where
  "plain_before py [] rest = True"
| "plain_before py (c # cs) rest =
     (match_placeholder py (c # cs @ rest) = None \<and> plain_before py cs rest)"
section \<open>Example inputs\<close>

text \<open>
  An interpreter whose tables know the fullwidth digits and two of the Unicode blanks, with
  the usual digit limit; they serve to evaluate the definitions, the theorems hold for
  every interpreter.
\<close>

definition example_python :: python where
  "example_python =
     \<lparr>todecimal = (\<lambda>c. if 0xFF10 \<le> c \<and> c \<le> 0xFF19 then Some (c - 0xFF10) else None),
      isspace = (\<lambda>c. c = 0x3000 \<or> c = 0xA0),
      max_str_digits = 4300\<rparr>"

definition example_env :: env where
  "example_env =
     \<lparr>env_today = \<lparr>year = 2024, month = 6, day = 1\<rparr>,
      env_now_iso = ascii ''2024-06-01T12:00:00'',
      user_read_ok = True, group_read_ok = True,
      user_write = Completed, group_write = Completed\<rparr>"

definition example_event :: "pystr \<Rightarrow> event" where
  "example_event qq =
     \<lparr>platform_name = ascii ''aiocqhttp'', sender_id = qq, sender_name = ascii ''Ann'',
      group_id = [], timestamp = PInt 1717243200, is_aiocqhttp_event = True,
      stranger_info_reply =
        Some [(ascii ''sex'', PStr (ascii ''female'')), (ascii ''birthday_year'', PInt 2000),
              (ascii ''birthday_month'', PInt 1), (ascii ''birthday_day'', PInt 5)],
      group_member_info_reply = None\<rparr>"

definition example_state :: state where
  "example_state =
     \<lparr>user_file =
        Holds [(ascii ''5'', [(ascii ''qq_number'', PStr (ascii ''5'')),
                              (ascii ''nickname'', PStr (ascii ''Bo''))])],
      group_file = Absent\<rparr>"

definition example_request :: request where
  "example_request =
     \<lparr>system_prompt = None, req_context = ascii ''[User ID: 5, Nickname: B]''\<rparr>"

section \<open>Reading integers\<close>

lemmas int_defs = py_int_def parse_int_def within_digit_limit_def strip_def to_ascii_def
  decimal_value_def c_isspace_def ascii_digit_def ascii_def

lemma ascii_eq [simp]: "ascii s = ascii t \<longleftrightarrow> s = t"
  by (simp add: ascii_def inj_map_eq_map inj_on_def)

lemma ascii_Nil [simp]: "ascii s = [] \<longleftrightarrow> s = []"
  by (simp add: ascii_def)

text \<open>
  \<open>int\<close> on some texts: plain digits whatever the tables; fullwidth digits and an
  ideographic space with tables that know them; a control character 31, which is no blank
  for \<open>int\<close>; more digits than the limit allows.
\<close>

lemma py_int_examples:
  "py_int py (ascii ''2000'') = Some 2000"
  "py_int py (ascii '' +1_0 '') = Some 10"
  "py_int py (ascii ''1__0'') = None"
  "py_int example_python [0xFF12, 0xFF10, 0xFF10, 0xFF10] = Some 2000"
  "py_int example_python [0x3000, 0xFF15] = Some 5"
  "py_int example_python [31, 49] = None"
  by (simp_all add: int_defs example_python_def)

lemma py_int_over_limit:
  assumes "640 < n" and "0 < max_str_digits py" and "max_str_digits py < n"
  shows "py_int py (replicate n 48) = None"
proof -
  obtain k where n: "n = Suc k"
    using assms(1) by (cases n) auto
  have "map (to_ascii py) (replicate n 48) = replicate n 48"
    by (simp add: to_ascii_def)
  moreover have "strip (replicate n 48) = replicate n 48"
    by (simp add: strip_def n c_isspace_def flip: replicate_Suc)
  moreover have "filter ascii_digit (replicate n 48) = replicate n 48"
    by (simp add: ascii_digit_def)
  ultimately show ?thesis
    using assms by (simp add: py_int_def parse_int_def within_digit_limit_def n
        split: option.splits)
qed

section \<open>Age computation\<close>

lemmas label_defs = label_qq_def label_nickname_def label_gender_def label_birthday_def
  label_age_def label_role_def label_title_def

lemma age_of_three_fields:
  assumes "map (py_int py) (split_on (of_char CHR ''-'') b) = [Some y, Some m, Some d]"
  shows "calculate_age py today (PStr b) =
         year today - y - (if tuple_less (month today, day today) (m, d) then 1 else 0)"
proof -
  have "b \<noteq> unknown"
    using assms by (auto simp: unknown_def)
  with assms show ?thesis
    by (auto split: list.splits option.splits)
qed

lemma age_of_malformed:
  assumes "b = unknown
           \<or> (\<forall>y m d. map (py_int py) (split_on (of_char CHR ''-'') b) \<noteq> [Some y, Some m, Some d])"
  shows "calculate_age py today (PStr b) = 0"
  using assms by (auto split: list.splits option.splits)

lemma no_age_part:
  assumes "dict_get_default user_info (ascii ''birthday'') (PStr unknown) = PStr b"
    and "calculate_age py today (PStr b) = 0"
    and "p \<in> set (prompt_parts py today user_info is_group)"
  shows "take (length label_age) p \<noteq> label_age"
  using assms by (auto simp: prompt_parts_def Let_def label_defs split: if_splits)

text \<open>For contrast: a birthday with a positive age does put the age part into the list.\<close>

lemma age_part_present:
  assumes "dict_get_default user_info (ascii ''birthday'') (PStr unknown) = PStr b"
    and "b \<noteq> unknown" and "0 < calculate_age py today (PStr b)"
  shows "label_age @ str_int (calculate_age py today (PStr b)) @ years_old
         \<in> set (prompt_parts py today user_info is_group)"
  using assms by (simp add: prompt_parts_def Let_def)

text \<open>
  Claim C1. A birthday that is the unknown sentinel, or that does not split at \<open>-\<close> into
  exactly three fields that \<open>int\<close> reads, has age 0, and the text made for a record with
  that birthday is the join of the parts the function collects, none of which is the age
  part (none begins with the age label). A birthday of three integer fields has the age:
  current year minus birth year, minus one exactly when the current (month, day) is less
  than the birthday's in the order of pairs.
\<close>

theorem calculate_age_policy:
  "(b = unknown
    \<or> (\<forall>y m d. map (py_int py) (split_on (of_char CHR ''-'') b) \<noteq> [Some y, Some m, Some d])
      \<longrightarrow> calculate_age py today (PStr b) = 0
          \<and> (dict_get_default user_info (ascii ''birthday'') (PStr unknown) = PStr b
               \<longrightarrow> format_user_info_for_prompt py today user_info is_group
                     = join part_separator (prompt_parts py today user_info is_group)
                   \<and> (\<forall>p \<in> set (prompt_parts py today user_info is_group).
                         take (length label_age) p \<noteq> label_age)))
   \<and> (map (py_int py) (split_on (of_char CHR ''-'') b) = [Some y, Some m, Some d]
      \<longrightarrow> calculate_age py today (PStr b)
          = year today - y - (if tuple_less (month today, day today) (m, d) then 1 else 0))"
proof (intro conjI impI ballI)
  assume bad: "b = unknown
    \<or> (\<forall>y m d. map (py_int py) (split_on (of_char CHR ''-'') b) \<noteq> [Some y, Some m, Some d])"
  then show zero: "calculate_age py today (PStr b) = 0"
    by (rule age_of_malformed)
  assume stored: "dict_get_default user_info (ascii ''birthday'') (PStr unknown) = PStr b"
  show "format_user_info_for_prompt py today user_info is_group
        = join part_separator (prompt_parts py today user_info is_group)"
    by (simp add: format_user_info_for_prompt_def)
  fix p
  assume "p \<in> set (prompt_parts py today user_info is_group)"
  then show "take (length label_age) p \<noteq> label_age"
    by (rule no_age_part [OF stored zero])
next
  assume "map (py_int py) (split_on (of_char CHR ''-'') b) = [Some y, Some m, Some d]"
  then show "calculate_age py today (PStr b)
             = year today - y - (if tuple_less (month today, day today) (m, d) then 1 else 0)"
    by (rule age_of_three_fields)
qed

theorem calculate_age_policy_witness:
  "(\<forall>y m d. map (py_int example_python) (split_on (of_char CHR ''-'') (ascii ''1990-May-20''))
             \<noteq> [Some y, Some m, Some d])
   \<and> calculate_age example_python \<lparr>year = 2024, month = 3, day = 1\<rparr>
        (PStr (ascii ''1990-May-20'')) = 0
   \<and> prompt_parts example_python \<lparr>year = 2024, month = 3, day = 1\<rparr>
        [(ascii ''qq_number'', PStr (ascii ''42'')),
         (ascii ''birthday'', PStr (ascii ''1990-May-20''))] False
      = [label_qq @ ascii ''42'', label_nickname @ unknown, label_gender @ ascii ''None'',
         label_birthday @ ascii ''1990-May-20'']
   \<and> map (py_int example_python) (split_on (of_char CHR ''-'') (ascii ''1990-05-20''))
      = [Some 1990, Some 5, Some 20]
   \<and> calculate_age example_python \<lparr>year = 2024, month = 3, day = 1\<rparr>
        (PStr (ascii ''1990-05-20'')) = 33"
proof -
  have malformed:
    "\<forall>y m d. map (py_int example_python) (split_on (of_char CHR ''-'') (ascii ''1990-May-20''))
             \<noteq> [Some y, Some m, Some d]"
    by (simp add: int_defs)
  have stored:
    "dict_get_default [(ascii ''qq_number'', PStr (ascii ''42'')),
                       (ascii ''birthday'', PStr (ascii ''1990-May-20''))]
       (ascii ''birthday'') (PStr unknown) = PStr (ascii ''1990-May-20'')"
    by (simp add: dict_get_default_def)
  have fields:
    "map (py_int example_python) (split_on (of_char CHR ''-'') (ascii ''1990-05-20''))
     = [Some 1990, Some 5, Some 20]"
    by (simp add: int_defs)
  have less: "tuple_less (3, 1) (5, 20)"
    by (simp add: tuple_less_def)
  have zero: "calculate_age example_python \<lparr>year = 2024, month = 3, day = 1\<rparr>
                (PStr (ascii ''1990-May-20'')) = 0"
    using malformed
      calculate_age_policy [where b = "ascii ''1990-May-20''" and py = example_python
        and today = "\<lparr>year = 2024, month = 3, day = 1\<rparr>"]
    by blast
  have parts:
    "prompt_parts example_python \<lparr>year = 2024, month = 3, day = 1\<rparr>
        [(ascii ''qq_number'', PStr (ascii ''42'')),
         (ascii ''birthday'', PStr (ascii ''1990-May-20''))] False
      = [label_qq @ ascii ''42'', label_nickname @ unknown, label_gender @ ascii ''None'',
         label_birthday @ ascii ''1990-May-20'']"
    using zero
    by (simp add: prompt_parts_def Let_def dict_get_default_def dict_get_def unknown_def
        ascii_def)
  have age: "calculate_age example_python \<lparr>year = 2024, month = 3, day = 1\<rparr>
               (PStr (ascii ''1990-05-20'')) = 33"
    using fields less
      calculate_age_policy [where b = "ascii ''1990-05-20''" and py = example_python
        and today = "\<lparr>year = 2024, month = 3, day = 1\<rparr>"
        and y = 1990 and m = 5 and d = 20]
    by simp
  show ?thesis
    using malformed zero parts fields age by blast
qed

text \<open>
  Claim C2, as the code has it. Against 2024-06-01 the birthday 2000-01-01 has age 24, in
  both variants. For the birthday 2000-02-01 and a current date in 2024, the age is 23
  while the current (month, day) is before (2, 1) and 24 from the first of February on,
  that day included.
\<close>

theorem calculate_age_examples:
  "calculate_age py \<lparr>year = 2024, month = 6, day = 1\<rparr> (PStr (ascii ''2000-01-01'')) = 24
   \<and> main_calculate_age py \<lparr>year = 2024, month = 6, day = 1\<rparr> (PStr (ascii ''2000-01-01'')) = 24
   \<and> calculate_age py \<lparr>year = 2024, month = m, day = d\<rparr> (PStr (ascii ''2000-02-01''))
       = (if tuple_less (m, d) (2, 1) then 23 else 24)
   \<and> main_calculate_age py \<lparr>year = 2024, month = m, day = d\<rparr> (PStr (ascii ''2000-02-01''))
       = (if tuple_less (m, d) (2, 1) then 23 else 24)"
  by (simp add: int_defs unknown_def tuple_less_def)

text \<open>
  On the first of February itself the age is already 24, not a smaller value: the claim
  as worded ("24 only strictly after February 1") fails on that day.
\<close>

theorem calculate_age_on_birthday_counterexample:
  "\<not> (calculate_age example_python \<lparr>year = 2024, month = 2, day = 1\<rparr>
         (PStr (ascii ''2000-02-01'')) < 24)"
  by (simp add: int_defs unknown_def tuple_less_def)

section \<open>The two variants agree on the shared helpers\<close>

text \<open>
  Claim C4. \<open>calculate_age\<close>, \<open>parse_birthday\<close> and \<open>get_gender_text\<close> of the older variant
  are the same functions as those of the newer variant.
\<close>

theorem shared_helpers_equal:
  "main_calculate_age = calculate_age
   \<and> main_parse_birthday = parse_birthday
   \<and> main_get_gender_text = get_gender_text"
proof (intro conjI ext)
  fix py today v
  show "main_calculate_age py today v = calculate_age py today v"
    by (cases v) simp_all
next
  fix stranger_info
  show "main_parse_birthday stranger_info = parse_birthday stranger_info"
    by (simp add: main_parse_birthday_def parse_birthday_def)
next
  fix gender
  show "main_get_gender_text gender = get_gender_text gender"
    by (simp add: main_get_gender_text_def get_gender_text_def)
qed

section \<open>Safe defaults\<close>

text \<open>
  Claim C5. \<open>load_user_info\<close> returns the empty dictionary when the file is absent, when
  its content does not parse and when reading it fails; \<open>parse_birthday\<close> returns the
  unknown sentinel when one of the three birthday fields is absent or falsy;
  \<open>calculate_age\<close> returns 0 when \<open>int\<close> raises on one of the three fields, and when the
  birthday is no string at all.
\<close>

theorem safe_defaults:
  "load_user_info read_ok Absent = [] \<and> load_user_info read_ok Unreadable = []
   \<and> load_user_info False f = []
   \<and> ((\<exists>k \<in> {ascii ''birthday_year'', ascii ''birthday_month'', ascii ''birthday_day''}.
          map_of stranger_info k = None
          \<or> (\<exists>v. map_of stranger_info k = Some v \<and> \<not> truthy v))
       \<longrightarrow> parse_birthday stranger_info = unknown)
   \<and> (split_on (of_char CHR ''-'') b = [p0, p1, p2]
       \<and> (py_int py p0 = None \<or> py_int py p1 = None \<or> py_int py p2 = None)
       \<longrightarrow> calculate_age py today (PStr b) = 0)
   \<and> calculate_age py today PNone = 0
   \<and> calculate_age py today (PBool t) = 0
   \<and> calculate_age py today (PInt i) = 0"
proof (intro conjI impI)
  assume "\<exists>k \<in> {ascii ''birthday_year'', ascii ''birthday_month'', ascii ''birthday_day''}.
            map_of stranger_info k = None
            \<or> (\<exists>v. map_of stranger_info k = Some v \<and> \<not> truthy v)"
  then have "\<exists>k \<in> {ascii ''birthday_year'', ascii ''birthday_month'', ascii ''birthday_day''}.
               \<not> truthy (dict_get stranger_info k)"
    by (auto simp: dict_get_def)
  then show "parse_birthday stranger_info = unknown"
    by (auto simp: parse_birthday_def)
next
  assume "split_on (of_char CHR ''-'') b = [p0, p1, p2]
          \<and> (py_int py p0 = None \<or> py_int py p1 = None \<or> py_int py p2 = None)"
  then show "calculate_age py today (PStr b) = 0"
    by (auto split: option.splits)
next
  show "load_user_info False f = []"
    by (cases f) (simp_all add: load_user_info_def)
qed (simp_all add: load_user_info_def)

theorem safe_defaults_witness:
  "map_of [(ascii ''birthday_year'', PInt 2000), (ascii ''birthday_month'', PInt 0)]
     (ascii ''birthday_day'') = None
   \<and> parse_birthday [(ascii ''birthday_year'', PInt 2000), (ascii ''birthday_month'', PInt 0)]
      = unknown
   \<and> split_on (of_char CHR ''-'') (ascii ''2000-'' @ [31, 49] @ ascii ''-5'')
      = [ascii ''2000'', [31, 49], ascii ''5'']
   \<and> py_int example_python [31, 49] = None
   \<and> calculate_age example_python \<lparr>year = 2024, month = 6, day = 1\<rparr>
        (PStr (ascii ''2000-'' @ [31, 49] @ ascii ''-5'')) = 0"
proof -
  have absent:
    "map_of [(ascii ''birthday_year'', PInt 2000), (ascii ''birthday_month'', PInt 0)]
       (ascii ''birthday_day'') = None"
    by simp
  have fields: "split_on (of_char CHR ''-'') (ascii ''2000-'' @ [31, 49] @ ascii ''-5'')
                = [ascii ''2000'', [31, 49], ascii ''5'']"
    by (simp add: ascii_def)
  have rejected: "py_int example_python [31, 49] = None"
    by (simp add: int_defs)
  show ?thesis
    using absent fields rejected
      safe_defaults [where stranger_info =
          "[(ascii ''birthday_year'', PInt 2000), (ascii ''birthday_month'', PInt 0)]"
        and b = "ascii ''2000-'' @ [31, 49] @ ascii ''-5''"
        and ?p0.0 = "ascii ''2000''" and ?p1.0 = "[31, 49]" and ?p2.0 = "ascii ''5''"
        and py = example_python and today = "\<lparr>year = 2024, month = 6, day = 1\<rparr>"]
    by simp
qed

section \<open>Rewriting placeholders\<close>

lemma not_decimal_comma: "\<not> is_decimal py (of_char CHR '','')"
  by (simp add: is_decimal_def decimal_value_def ascii_digit_def)

lemma match_placeholder_complete:
  assumes "id_digits py qq" and "nickname_text nk"
  shows "match_placeholder py (placeholder qq nk @ rest) = Some (qq, nk, rest)"
proof -
  have d: "\<And>c. c \<in> set qq \<Longrightarrow> is_decimal py c" and q: "qq \<noteq> []"
    using assms(1) by (auto simp: id_digits_def list_all_iff)
  have n: "\<And>c. c \<in> set nk \<Longrightarrow> c \<noteq> of_char CHR '']''" and k: "nk \<noteq> []"
    using assms(2) by (auto simp: nickname_text_def list_all_iff)
  have comma: "ascii '', Nickname: '' = of_char CHR '','' # ascii '' Nickname: ''"
    and bracket: "ascii '']'' = [of_char CHR '']'']"
    by (simp_all add: ascii_def)
  have p1: "strip_prefix (ascii ''[User ID: '') (placeholder qq nk @ rest)
            = Some (qq @ ascii '', Nickname: '' @ nk @ ascii '']'' @ rest)"
    by (simp add: strip_prefix_Some placeholder_def)
  have t1: "takeWhile (is_decimal py) (qq @ ascii '', Nickname: '' @ nk @ ascii '']'' @ rest) = qq"
    using d by (simp add: takeWhile_append2 comma not_decimal_comma del: of_char_Char)
  have d1: "dropWhile (is_decimal py) (qq @ ascii '', Nickname: '' @ nk @ ascii '']'' @ rest)
            = ascii '', Nickname: '' @ nk @ ascii '']'' @ rest"
    using d by (simp add: dropWhile_append2 comma not_decimal_comma del: of_char_Char)
  have p2: "strip_prefix (ascii '', Nickname: '') (ascii '', Nickname: '' @ nk @ ascii '']'' @ rest)
            = Some (nk @ ascii '']'' @ rest)"
    by (simp only: strip_prefix_Some)
  have t2: "takeWhile (\<lambda>c. c \<noteq> of_char CHR '']'') (nk @ ascii '']'' @ rest) = nk"
    using n by (simp add: takeWhile_append2 bracket del: of_char_Char)
  have d2: "dropWhile (\<lambda>c. c \<noteq> of_char CHR '']'') (nk @ ascii '']'' @ rest)
            = of_char CHR '']'' # rest"
    using n by (simp add: dropWhile_append2 bracket del: of_char_Char)
  show ?thesis
    unfolding match_placeholder_def p1 option.case t1 d1 p2 t2 d2
    using q k by simp
qed

lemma match_placeholder_groups:
  assumes "match_placeholder py s = Some (qq, nk, rest)"
  shows "id_digits py qq \<and> nickname_text nk"
  using assms
  by (auto simp: match_placeholder_def id_digits_def nickname_text_def list_all_iff
      split: option.splits if_splits list.splits dest: set_takeWhileD)

lemma match_placeholder_iff:
  "match_placeholder py s = Some (qq, nk, rest)
   \<longleftrightarrow> id_digits py qq \<and> nickname_text nk \<and> s = placeholder qq nk @ rest"
  using match_placeholder_complete match_placeholder_groups match_placeholder_text by blast

lemma re_sub_plain:
  "plain_before py pre rest \<Longrightarrow> re_sub py tbl (pre @ rest) = pre @ re_sub py tbl rest"
  by (induction pre) (simp_all add: re_sub.simps(2))

lemma re_sub_placeholder:
  assumes "id_digits py qq" and "nickname_text nk"
  shows "re_sub py tbl (placeholder qq nk @ rest)
         = replace_callback tbl qq nk @ re_sub py tbl rest"
proof -
  obtain c cs where s: "placeholder qq nk @ rest = c # cs"
    by (cases "placeholder qq nk @ rest") (auto simp: placeholder_def ascii_def)
  have "match_placeholder py (c # cs) = Some (qq, nk, rest)"
    using match_placeholder_complete [OF assms, of rest] s by simp
  then show ?thesis
    unfolding s by (simp add: re_sub.simps(2))
qed

lemma replace_callback_latest:
  "replace_callback tbl qq old = placeholder qq (latest_nickname tbl qq old)"
  by (auto simp: replace_callback_def latest_nickname_def dict_get_default_def
      split: option.splits)

lemma re_sub_empty_table: "re_sub py [] s = s"
proof (induction py "[] :: user_table" s rule: re_sub.induct)
  case (1 py)
  show ?case by simp
next
  case (2 py c cs)
  show ?case
  proof (cases "match_placeholder py (c # cs)")
    case None
    with 2 show ?thesis by (simp add: re_sub.simps(2))
  next
    case (Some t)
    obtain qq nk rest where t: "t = (qq, nk, rest)" by (cases t)
    have whole: "c # cs = placeholder qq nk @ rest"
      using Some t by (simp add: match_placeholder_text)
    have rest: "re_sub py [] rest = rest"
      using 2(2) Some t by simp
    have "re_sub py [] (c # cs) = replace_callback [] qq nk @ re_sub py [] rest"
      using Some t by (simp add: re_sub.simps(2))
    also have "\<dots> = placeholder qq nk @ rest"
      using rest by (simp add: replace_callback_def)
    finally show ?thesis
      using whole by simp
  qed
qed

lemma replace_is_re_sub: "replace_nickname_in_context py tbl s = re_sub py tbl s"
  by (simp add: replace_nickname_in_context_def re_sub_empty_table)

lemma replace_decomposition:
  assumes "id_digits py qq" and "nickname_text nk"
    and "plain_before py pre (placeholder qq nk @ post)"
  shows "replace_nickname_in_context py tbl (pre @ placeholder qq nk @ post)
         = pre @ placeholder qq (latest_nickname tbl qq nk)
           @ replace_nickname_in_context py tbl post"
  using assms
  by (simp add: replace_is_re_sub re_sub_plain re_sub_placeholder replace_callback_latest)

lemma replace_no_placeholder:
  assumes "plain_before py plain []"
  shows "replace_nickname_in_context py tbl plain = plain"
  using re_sub_plain [OF assms, of tbl] by (simp add: replace_is_re_sub)

lemmas placeholder_eval = replace_nickname_in_context_def placeholder_def re_sub.simps(2)
  match_placeholder_def is_decimal_def decimal_value_def ascii_digit_def replace_callback_def
  dict_get_default_def ascii_def

text \<open>
  A placeholder whose id is written in fullwidth digits is matched by an interpreter whose
  tables know these digits, and rewritten like any other.
\<close>

lemma fullwidth_id_rewritten:
  "replace_nickname_in_context example_python [([0xFF11, 0xFF12], [(ascii ''nickname'', PStr (ascii ''Bob''))])]
     (placeholder [0xFF11, 0xFF12] (ascii ''a''))
   = placeholder [0xFF11, 0xFF12] (ascii ''Bob'')"
  by (simp add: placeholder_eval example_python_def)

text \<open>
  Claim C3, as the code has it. The matcher recognises exactly the texts
  \<^verbatim>\<open>[User ID: <digits>, Nickname: <text-without-]>]\<close>. Where such a placeholder stands in
  the text with no placeholder beginning before it, the text before it is kept, only its
  nickname is replaced, by the latest nickname for its id, and the rest is rewritten in
  the same way. The latest nickname is the stored one when the table has a record for the
  id whose nickname is present and not empty; otherwise it is the nickname the placeholder
  already had, so the placeholder stays as it was. A text in which no placeholder begins
  is returned unchanged.
\<close>

theorem replace_nickname_rewrites:
  "(match_placeholder py s = Some (qq, nk, rest)
      \<longleftrightarrow> id_digits py qq \<and> nickname_text nk \<and> s = placeholder qq nk @ rest)
   \<and> (id_digits py qq \<and> nickname_text nk \<and> plain_before py pre (placeholder qq nk @ post)
       \<longrightarrow> replace_nickname_in_context py tbl (pre @ placeholder qq nk @ post)
           = pre @ placeholder qq (latest_nickname tbl qq nk)
             @ replace_nickname_in_context py tbl post)
   \<and> (plain_before py plain [] \<longrightarrow> replace_nickname_in_context py tbl plain = plain)"
  using match_placeholder_iff [of py s qq nk rest] replace_decomposition [of py qq nk pre post tbl]
    replace_no_placeholder [of py plain tbl]
  by blast

theorem replace_nickname_rewrites_witness:
  "id_digits example_python (ascii ''1'') \<and> nickname_text (ascii ''a'')
   \<and> plain_before example_python (ascii ''hi [x] '')
        (placeholder (ascii ''1'') (ascii ''a'') @ ascii '' and [User ID: 2, Nickname: c]'')
   \<and> replace_nickname_in_context example_python
        [(ascii ''1'', [(ascii ''nickname'', PStr (ascii ''Bob''))])]
        (ascii ''hi [x] '' @ placeholder (ascii ''1'') (ascii ''a'')
         @ ascii '' and [User ID: 2, Nickname: c]'')
      = ascii ''hi [x] [User ID: 1, Nickname: Bob] and [User ID: 2, Nickname: c]''
   \<and> plain_before example_python (ascii ''no [User ID: here]'') []
   \<and> replace_nickname_in_context example_python
        [(ascii ''1'', [(ascii ''nickname'', PStr (ascii ''Bob''))])]
        (ascii ''no [User ID: here]'')
      = ascii ''no [User ID: here]''"
proof -
  have groups: "id_digits example_python (ascii ''1'') \<and> nickname_text (ascii ''a'')"
    by (simp add: id_digits_def nickname_text_def is_decimal_def decimal_value_def
        ascii_digit_def ascii_def)
  have before:
    "plain_before example_python (ascii ''hi [x] '')
       (placeholder (ascii ''1'') (ascii ''a'') @ ascii '' and [User ID: 2, Nickname: c]'')"
    by (simp add: placeholder_def match_placeholder_def ascii_def)
  have none: "plain_before example_python (ascii ''no [User ID: here]'') []"
    by (simp add: match_placeholder_def is_decimal_def decimal_value_def ascii_digit_def
        ascii_def)
  have latest:
    "latest_nickname [(ascii ''1'', [(ascii ''nickname'', PStr (ascii ''Bob''))])]
       (ascii ''1'') (ascii ''a'') = ascii ''Bob''"
    by (simp add: latest_nickname_def)
  have tail:
    "replace_nickname_in_context example_python
       [(ascii ''1'', [(ascii ''nickname'', PStr (ascii ''Bob''))])]
       (ascii '' and [User ID: 2, Nickname: c]'') = ascii '' and [User ID: 2, Nickname: c]''"
    by (simp add: placeholder_eval)
  show ?thesis
    using groups before none latest tail
      replace_nickname_rewrites [where py = example_python and qq = "ascii ''1''"
        and nk = "ascii ''a''" and pre = "ascii ''hi [x] ''"
        and post = "ascii '' and [User ID: 2, Nickname: c]''"
        and tbl = "[(ascii ''1'', [(ascii ''nickname'', PStr (ascii ''Bob''))])]"
        and plain = "ascii ''no [User ID: here]''"]
    by (simp add: placeholder_def ascii_def)
qed

text \<open>
  The claim as worded has the nickname replaced by the stored one whenever a record
  exists and the stored nickname differs from the placeholder's. With a stored nickname
  that is the empty string the code keeps the placeholder instead.
\<close>

theorem replace_nickname_empty_stored_counterexample:
  "map_of [(ascii ''1'', [(ascii ''nickname'', PStr [])])] (ascii ''1'')
     = Some [(ascii ''nickname'', PStr [])]
   \<and> PStr [] \<noteq> PStr (ascii ''a'')
   \<and> replace_nickname_in_context example_python [(ascii ''1'', [(ascii ''nickname'', PStr [])])]
        (placeholder (ascii ''1'') (ascii ''a''))
      \<noteq> placeholder (ascii ''1'') []
   \<and> replace_nickname_in_context example_python [(ascii ''1'', [(ascii ''nickname'', PStr [])])]
        (placeholder (ascii ''1'') (ascii ''a''))
      = placeholder (ascii ''1'') (ascii ''a'')"
  by (simp add: placeholder_eval)

text \<open>
  Claim C9. With an empty table, or an empty text, the text is returned unchanged. A
  placeholder whose id has a record with no nickname, or with the empty string as
  nickname, is left as it was.
\<close>

theorem replace_nickname_edge_cases:
  "replace_nickname_in_context py [] t = t
   \<and> replace_nickname_in_context py tbl [] = []
   \<and> (map_of tbl qq = Some user_info
       \<and> (map_of user_info (ascii ''nickname'') = None
          \<or> map_of user_info (ascii ''nickname'') = Some (PStr []))
       \<and> id_digits py qq \<and> nickname_text nk \<and> plain_before py pre (placeholder qq nk @ post)
       \<longrightarrow> replace_nickname_in_context py tbl (pre @ placeholder qq nk @ post)
           = pre @ placeholder qq nk @ replace_nickname_in_context py tbl post)"
proof (intro conjI impI)
  assume h: "map_of tbl qq = Some user_info
       \<and> (map_of user_info (ascii ''nickname'') = None
          \<or> map_of user_info (ascii ''nickname'') = Some (PStr []))
       \<and> id_digits py qq \<and> nickname_text nk \<and> plain_before py pre (placeholder qq nk @ post)"
  then have "latest_nickname tbl qq nk = nk"
    by (auto simp: latest_nickname_def)
  with h show "replace_nickname_in_context py tbl (pre @ placeholder qq nk @ post)
           = pre @ placeholder qq nk @ replace_nickname_in_context py tbl post"
    by (simp add: replace_decomposition)
qed (simp_all add: replace_nickname_in_context_def)

theorem replace_nickname_edge_cases_witness:
  "map_of [(ascii ''7'', [(ascii ''qq_number'', PStr (ascii ''7''))]),
           (ascii ''8'', [(ascii ''nickname'', PStr [])])] (ascii ''7'')
     = Some [(ascii ''qq_number'', PStr (ascii ''7''))]
   \<and> map_of [(ascii ''qq_number'', PStr (ascii ''7''))] (ascii ''nickname'') = None
   \<and> id_digits example_python (ascii ''7'') \<and> nickname_text (ascii ''Ann'')
   \<and> plain_before example_python (ascii ''to '') (placeholder (ascii ''7'') (ascii ''Ann'') @ ascii ''!'')
   \<and> replace_nickname_in_context example_python
        [(ascii ''7'', [(ascii ''qq_number'', PStr (ascii ''7''))]),
         (ascii ''8'', [(ascii ''nickname'', PStr [])])]
        (ascii ''to '' @ placeholder (ascii ''7'') (ascii ''Ann'') @ ascii ''!'')
      = ascii ''to [User ID: 7, Nickname: Ann]!''"
proof -
  have found:
    "map_of [(ascii ''7'', [(ascii ''qq_number'', PStr (ascii ''7''))]),
             (ascii ''8'', [(ascii ''nickname'', PStr [])])] (ascii ''7'')
     = Some [(ascii ''qq_number'', PStr (ascii ''7''))]"
    by simp
  have absent: "map_of [(ascii ''qq_number'', PStr (ascii ''7''))] (ascii ''nickname'') = None"
    by simp
  have groups: "id_digits example_python (ascii ''7'') \<and> nickname_text (ascii ''Ann'')"
    by (simp add: id_digits_def nickname_text_def is_decimal_def decimal_value_def
        ascii_digit_def ascii_def)
  have before:
    "plain_before example_python (ascii ''to '')
       (placeholder (ascii ''7'') (ascii ''Ann'') @ ascii ''!'')"
    by (simp add: placeholder_def match_placeholder_def ascii_def)
  have tail:
    "replace_nickname_in_context example_python
       [(ascii ''7'', [(ascii ''qq_number'', PStr (ascii ''7''))]),
        (ascii ''8'', [(ascii ''nickname'', PStr [])])] (ascii ''!'')
     = ascii ''!''"
    by (simp add: placeholder_eval)
  show ?thesis
    using found absent groups before tail
      replace_nickname_edge_cases [where py = example_python
        and tbl = "[(ascii ''7'', [(ascii ''qq_number'', PStr (ascii ''7''))]),
                    (ascii ''8'', [(ascii ''nickname'', PStr [])])]"
        and qq = "ascii ''7''" and user_info = "[(ascii ''qq_number'', PStr (ascii ''7''))]"
        and nk = "ascii ''Ann''" and pre = "ascii ''to ''" and post = "ascii ''!''"]
    by (simp add: placeholder_def ascii_def)
qed

section \<open>The edit commands reject without writing\<close>

lemma validate_birthday_plausible:
  "validate_birthday py current_year v = None \<longleftrightarrow> plausible_birthday py current_year v"
  by (auto simp: validate_birthday_def plausible_birthday_def split: list.splits option.splits)

lemma update_birthday_rejected:
  assumes "\<not> plausible_birthday py (year (env_today e)) v"
  shows "is_error_reply (fst (update_birthday py e ev v st))
         \<and> snd (update_birthday py e ev v st) = st"
proof -
  obtain err where "validate_birthday py (year (env_today e)) v = Some err"
    using assms validate_birthday_plausible [of py "year (env_today e)" v]
    by (cases "validate_birthday py (year (env_today e)) v") auto
  then show ?thesis
    by (simp add: update_birthday_def Let_def split: option.splits)
qed

lemma update_gender_rejected:
  assumes "v \<noteq> male_text" and "v \<noteq> female_text"
  shows "update_gender e ev v st = (Gender_rejected, st)
         \<or> update_gender e ev v st = (No_record, st)"
  using assms by (simp add: update_gender_def Let_def split: option.splits)

text \<open>
  Claim C10. A command of a sender who has no record in the loaded table answers that
  there is no record and leaves the state as it is. \<open>update_birthday\<close> with a value that is
  not three integer fields separated by \<open>-\<close> with the year in 1900..current year, the
  month in 1..12 and the day in 1..31, and \<open>update_gender\<close> with a value other than the
  two accepted ones, answer with an error message and leave the state as it is: nothing is
  written, however a write would have ended.
\<close>

theorem edit_commands_atomic:
  "(map_of (load_user_info (user_read_ok e) (user_file st)) (sender_id ev) = None
      \<longrightarrow> update_nickname e ev v st = (No_record, st)
          \<and> update_birthday py e ev v st = (No_record, st)
          \<and> update_gender e ev v st = (No_record, st))
   \<and> (\<not> plausible_birthday py (year (env_today e)) v
      \<longrightarrow> is_error_reply (fst (update_birthday py e ev v st))
          \<and> snd (update_birthday py e ev v st) = st)
   \<and> (v \<noteq> male_text \<and> v \<noteq> female_text
      \<longrightarrow> is_error_reply (fst (update_gender e ev v st))
          \<and> snd (update_gender e ev v st) = st)"
proof (intro conjI impI)
  assume "\<not> plausible_birthday py (year (env_today e)) v"
  then show "is_error_reply (fst (update_birthday py e ev v st))"
    and "snd (update_birthday py e ev v st) = st"
    using update_birthday_rejected by blast+
next
  assume "v \<noteq> male_text \<and> v \<noteq> female_text"
  then show "is_error_reply (fst (update_gender e ev v st))"
    and "snd (update_gender e ev v st) = st"
    using update_gender_rejected [of v e ev st] by auto
qed (simp_all add: update_nickname_def update_birthday_def update_gender_def)

theorem edit_commands_atomic_witness:
  "map_of (load_user_info (user_read_ok example_env) (user_file example_state))
     (sender_id (example_event (ascii ''9''))) = None
   \<and> update_nickname example_env (example_event (ascii ''9'')) (ascii ''Zed'') example_state
      = (No_record, example_state)
   \<and> \<not> plausible_birthday example_python (year (env_today example_env))
         (ascii ''2000-01-'' @ [31] @ ascii ''01'')
   \<and> is_error_reply (fst (update_birthday example_python example_env (example_event (ascii ''5''))
                             (ascii ''2000-01-'' @ [31] @ ascii ''01'') example_state))
   \<and> snd (update_birthday example_python example_env (example_event (ascii ''5''))
            (ascii ''2000-01-'' @ [31] @ ascii ''01'') example_state)
      = example_state
   \<and> ascii ''male'' \<noteq> male_text \<and> ascii ''male'' \<noteq> female_text
   \<and> is_error_reply (fst (update_gender example_env (example_event (ascii ''5'')) (ascii ''male'')
                             example_state))
   \<and> snd (update_gender example_env (example_event (ascii ''5'')) (ascii ''male'') example_state)
      = example_state"
proof -
  have absent:
    "map_of (load_user_info (user_read_ok example_env) (user_file example_state))
       (sender_id (example_event (ascii ''9''))) = None"
    by (simp add: example_state_def example_event_def example_env_def load_user_info_def)
  have implausible:
    "\<not> plausible_birthday example_python (year (env_today example_env))
         (ascii ''2000-01-'' @ [31] @ ascii ''01'')"
    by (simp add: plausible_birthday_def example_env_def int_defs)
  have other: "ascii ''male'' \<noteq> male_text \<and> ascii ''male'' \<noteq> female_text"
    by (simp add: male_text_def female_text_def ascii_def)
  show ?thesis
    using absent implausible other
      edit_commands_atomic [where st = example_state and ev = "example_event (ascii ''9'')"
        and e = example_env and v = "ascii ''Zed''" and py = example_python]
      edit_commands_atomic [where st = example_state and ev = "example_event (ascii ''5'')"
        and e = example_env and v = "ascii ''2000-01-'' @ [31] @ ascii ''01''"
        and py = example_python]
      edit_commands_atomic [where st = example_state and ev = "example_event (ascii ''5'')"
        and e = example_env and v = "ascii ''male''" and py = example_python]
    by simp
qed

section \<open>Stored birthdays\<close>

lemma update_birthday_stores_plausible:
  assumes "snd (update_birthday py e ev v st) \<noteq> st
           \<or> fst (update_birthday py e ev v st) = Birthday_updated b"
  shows "plausible_birthday py (year (env_today e)) v"
proof (rule ccontr)
  assume "\<not> plausible_birthday py (year (env_today e)) v"
  then have "is_error_reply (fst (update_birthday py e ev v st))"
    and "snd (update_birthday py e ev v st) = st"
    using update_birthday_rejected by blast+
  with assms show False by auto
qed

text \<open>
  Claim C7, as the code has it. \<open>parse_birthday\<close> returns the unknown sentinel, or else the
  three platform fields, all of them truthy, written as they are and joined by \<open>-\<close>.
  Whenever \<open>update_birthday\<close> changes the state or answers that the birthday was updated,
  the new value is three fields separated by \<open>-\<close> that \<open>int\<close> reads, with the year in
  1900..current year, the month in 1..12 and the day in 1..31.
\<close>

theorem stored_birthdays:
  "(parse_birthday stranger_info = unknown
    \<or> (truthy (dict_get stranger_info (ascii ''birthday_year''))
        \<and> truthy (dict_get stranger_info (ascii ''birthday_month''))
        \<and> truthy (dict_get stranger_info (ascii ''birthday_day''))
        \<and> parse_birthday stranger_info
           = py_str (dict_get stranger_info (ascii ''birthday_year'')) @ ascii ''-''
             @ py_str (dict_get stranger_info (ascii ''birthday_month'')) @ ascii ''-''
             @ py_str (dict_get stranger_info (ascii ''birthday_day''))))
   \<and> (snd (update_birthday py e ev v st) \<noteq> st
       \<or> fst (update_birthday py e ev v st) = Birthday_updated b
      \<longrightarrow> plausible_birthday py (year (env_today e)) v)"
  using update_birthday_stores_plausible [of py e ev v st b]
  by (auto simp: parse_birthday_def)

text \<open>The witness is a birthday whose year is written in fullwidth digits.\<close>

theorem stored_birthdays_witness:
  "fst (update_birthday example_python example_env (example_event (ascii ''5''))
          ([0xFF11, 0xFF19, 0xFF19, 0xFF19] @ ascii ''-7-04'') example_state)
     = Birthday_updated ([0xFF11, 0xFF19, 0xFF19, 0xFF19] @ ascii ''-7-04'')
   \<and> plausible_birthday example_python (year (env_today example_env))
        ([0xFF11, 0xFF19, 0xFF19, 0xFF19] @ ascii ''-7-04'')"
proof -
  have accepted:
    "fst (update_birthday example_python example_env (example_event (ascii ''5''))
            ([0xFF11, 0xFF19, 0xFF19, 0xFF19] @ ascii ''-7-04'') example_state)
     = Birthday_updated ([0xFF11, 0xFF19, 0xFF19, 0xFF19] @ ascii ''-7-04'')"
    by (simp add: update_birthday_def validate_birthday_def example_env_def example_event_def
        example_state_def example_python_def load_user_info_def Let_def int_defs)
  show ?thesis
    using accepted
      stored_birthdays [where py = example_python and e = example_env
        and ev = "example_event (ascii ''5'')"
        and v = "[0xFF11, 0xFF19, 0xFF19, 0xFF19] @ ascii ''-7-04''" and st = example_state
        and b = "[0xFF11, 0xFF19, 0xFF19, 0xFF19] @ ascii ''-7-04''"]
    by simp
qed

text \<open>
  Neither value need be a calendar date written \<open>YYYY-MM-DD\<close>: \<open>parse_birthday\<close> does not pad
  the month and the day to two digits, and \<open>update_birthday\<close> accepts and stores the 31st
  of February.
\<close>

theorem stored_birthday_not_iso_counterexample:
  "parse_birthday [(ascii ''birthday_year'', PInt 2000), (ascii ''birthday_month'', PInt 1),
                   (ascii ''birthday_day'', PInt 5)] = ascii ''2000-1-5''
   \<and> \<not> iso_date (ascii ''2000-1-5'') \<and> ascii ''2000-1-5'' \<noteq> unknown
   \<and> update_birthday example_python example_env (example_event (ascii ''5''))
        (ascii ''2000-02-31'') example_state
      = (Birthday_updated (ascii ''2000-02-31''),
         \<lparr>user_file =
            Holds [(ascii ''5'', [(ascii ''qq_number'', PStr (ascii ''5'')),
                                  (ascii ''nickname'', PStr (ascii ''Bo'')),
                                  (ascii ''birthday'', PStr (ascii ''2000-02-31''))])],
          group_file = Absent\<rparr>)
   \<and> \<not> iso_date (ascii ''2000-02-31'') \<and> ascii ''2000-02-31'' \<noteq> unknown"
proof (intro conjI)
  show "parse_birthday [(ascii ''birthday_year'', PInt 2000), (ascii ''birthday_month'', PInt 1),
                        (ascii ''birthday_day'', PInt 5)] = ascii ''2000-1-5''"
    by (simp add: parse_birthday_def dict_get_def str_int_def str_nat.simps digit_char_def
        ascii_def)
  show "\<not> iso_date (ascii ''2000-1-5'')"
    by (simp add: ascii_def)
  show "\<not> iso_date (ascii ''2000-02-31'')"
    by (simp add: ascii_def ascii_digit_def days_in_month_def leap_year_def)
  show "update_birthday example_python example_env (example_event (ascii ''5''))
          (ascii ''2000-02-31'') example_state
        = (Birthday_updated (ascii ''2000-02-31''),
           \<lparr>user_file =
              Holds [(ascii ''5'', [(ascii ''qq_number'', PStr (ascii ''5'')),
                                    (ascii ''nickname'', PStr (ascii ''Bo'')),
                                    (ascii ''birthday'', PStr (ascii ''2000-02-31''))])],
            group_file = Absent\<rparr>)"
    by (simp add: update_birthday_def validate_birthday_def store_field_def save_user_info_def
        table_encodable_def dict_encodable_def str_encodable_def is_surrogate_def
        example_env_def example_event_def example_state_def example_python_def
        load_user_info_def Let_def int_defs)
qed (simp_all add: unknown_def ascii_def)

section \<open>User records and failing writes\<close>

lemma save_user_info_cases:
  "save_user_info outcome t f = f
   \<or> save_user_info outcome t f = Unreadable
   \<or> save_user_info outcome t f = Holds t"
  by (cases outcome) (simp_all add: save_user_info_def)

lemma map_of_None_ids: "map_of t k = None \<longleftrightarrow> k \<notin> fst ` set t"
  by (simp add: map_of_eq_None_iff)

lemma hook_user_file:
  "user_file (fst (on_llm_request_hook py e ev req st))
   = (if platform_name ev = ascii ''aiocqhttp''
         \<and> map_of (load_user_info (user_read_ok e) (user_file st)) (sender_id ev) = None
      then save_user_info (user_write e)
             (AList.update (sender_id ev) (get_qq_user_info py ev (sender_id ev) True)
                (load_user_info (user_read_ok e) (user_file st)))
             (user_file st)
      else user_file st)"
  by (simp add: on_llm_request_hook_def Let_def update_Some_unfold map_of_None_ids
      split: option.splits)

lemma command_user_file:
  "user_file (snd (update_nickname e ev v st))
   = (case map_of (load_user_info (user_read_ok e) (user_file st)) (sender_id ev) of
        None \<Rightarrow> user_file st
      | Some u \<Rightarrow>
          save_user_info (user_write e)
            (AList.update (sender_id ev) (AList.update (ascii ''nickname'') (PStr v) u)
               (load_user_info (user_read_ok e) (user_file st)))
            (user_file st))"
  "user_file (snd (update_gender e ev v st))
   = (case map_of (load_user_info (user_read_ok e) (user_file st)) (sender_id ev) of
        None \<Rightarrow> user_file st
      | Some u \<Rightarrow>
          if v \<notin> set [male_text, female_text] then user_file st
          else save_user_info (user_write e)
                 (AList.update (sender_id ev) (AList.update (ascii ''gender'') (PStr v) u)
                    (load_user_info (user_read_ok e) (user_file st)))
                 (user_file st))"
  "user_file (snd (update_birthday py e ev v st))
   = (case map_of (load_user_info (user_read_ok e) (user_file st)) (sender_id ev) of
        None \<Rightarrow> user_file st
      | Some u \<Rightarrow>
          if validate_birthday py (year (env_today e)) v \<noteq> None then user_file st
          else save_user_info (user_write e)
                 (AList.update (sender_id ev) (AList.update (ascii ''birthday'') (PStr v) u)
                    (load_user_info (user_read_ok e) (user_file st)))
                 (user_file st))"
  by (auto simp: update_nickname_def update_gender_def update_birthday_def store_field_def
      Let_def split: option.splits)

text \<open>
  Whatever the operation, the file it leaves is the one it met, or a cut-off one, or holds
  the table it loaded with one key put or updated.
\<close>

lemma operation_user_file:
  "user_file (apply_operation py operation st) = user_file st
   \<or> user_file (apply_operation py operation st) = Unreadable
   \<or> (\<exists>k v. user_file (apply_operation py operation st)
             = Holds (AList.update k v
                        (load_user_info (user_read_ok (operation_env operation)) (user_file st))))"
proof (cases operation)
  case (Llm_request e ev req)
  then show ?thesis
    using save_user_info_cases
      [of "user_write e"
          "AList.update (sender_id ev) (get_qq_user_info py ev (sender_id ev) True)
             (load_user_info (user_read_ok e) (user_file st))"
          "user_file st"]
    by (auto simp: hook_user_file)
next
  case (Nickname_command e ev v)
  then show ?thesis
    using save_user_info_cases [of "user_write e" _ "user_file st"]
    by (simp add: command_user_file(1) split: option.splits) blast
next
  case (Birthday_command e ev v)
  then show ?thesis
    using save_user_info_cases [of "user_write e" _ "user_file st"]
    by (simp add: command_user_file(3) split: option.splits) blast
next
  case (Gender_command e ev v)
  then show ?thesis
    using save_user_info_cases [of "user_write e" _ "user_file st"]
    by (simp add: command_user_file(2) split: option.splits) blast
qed

lemma ids_Unreadable: "user_file st = Unreadable \<Longrightarrow> user_ids st = {}"
  by (simp add: user_ids_def load_user_info_def)

lemma undisturbed_ids:
  assumes "undisturbed py operation st"
  shows "user_ids st \<subseteq> user_ids (apply_operation py operation st)"
proof -
  have ok: "user_read_ok (operation_env operation)"
    and kept: "user_file (apply_operation py operation st) = Unreadable
               \<Longrightarrow> user_file st = Unreadable"
    using assms by (auto simp: undisturbed_def)
  consider
    (same) "user_file (apply_operation py operation st) = user_file st"
    | (cut) "user_file (apply_operation py operation st) = Unreadable"
    | (put) k v where "user_file (apply_operation py operation st)
                       = Holds (AList.update k v (load_user_info True (user_file st)))"
    using operation_user_file [of py operation st] ok by auto
  then show ?thesis
  proof cases
    case same
    then show ?thesis by (simp add: user_ids_def)
  next
    case cut
    then show ?thesis using kept ids_Unreadable by simp
  next
    case put
    then show ?thesis by (auto simp: user_ids_def load_user_info_def dom_update)
  qed
qed

lemma undisturbed_run_ids:
  "undisturbed_run py operations st \<Longrightarrow> user_ids st \<subseteq> user_ids (run py operations st)"
proof (induction operations arbitrary: st)
  case Nil
  show ?case by simp
next
  case (Cons operation operations)
  have "user_ids st \<subseteq> user_ids (apply_operation py operation st)"
    using Cons.prems by (simp add: undisturbed_ids)
  also have "\<dots> \<subseteq> user_ids (run py operations (apply_operation py operation st))"
    using Cons.prems by (simp add: Cons.IH)
  finally show ?case by simp
qed

lemma hook_adds_record:
  assumes "platform_name ev = ascii ''aiocqhttp''" and "user_read_ok e"
    and "sender_id ev \<notin> user_ids st" and "user_write e = Completed"
    and "table_encodable (AList.update (sender_id ev) (get_qq_user_info py ev (sender_id ev) True)
                            (load_user_info True (user_file st)))"
  shows "user_ids (fst (on_llm_request_hook py e ev req st)) = insert (sender_id ev) (user_ids st)"
  using assms
  by (simp add: user_ids_def hook_user_file map_of_None_ids save_user_info_def load_user_info_def
      dom_update)

lemma hook_keeps_known:
  assumes "user_read_ok e" and "sender_id ev \<in> user_ids st"
  shows "user_file (fst (on_llm_request_hook py e ev req st)) = user_file st"
  using assms by (simp add: user_ids_def hook_user_file map_of_None_ids)

lemma command_user_file_cases:
  assumes "operation = Nickname_command e ev v \<or> operation = Birthday_command e ev v
           \<or> operation = Gender_command e ev v"
  shows "user_file (apply_operation py operation st) = user_file st
         \<or> user_file (apply_operation py operation st) = Unreadable
         \<or> (\<exists>u w. map_of (load_user_info (user_read_ok e) (user_file st)) (sender_id ev) = Some u
                  \<and> user_file (apply_operation py operation st)
                    = Holds (AList.update (sender_id ev) w
                               (load_user_info (user_read_ok e) (user_file st))))"
proof -
  have saved: "\<And>t. save_user_info (user_write e) t (user_file st) = user_file st
                 \<or> save_user_info (user_write e) t (user_file st) = Unreadable
                 \<or> save_user_info (user_write e) t (user_file st) = Holds t"
    by (rule save_user_info_cases)
  show ?thesis
  proof (cases "map_of (load_user_info (user_read_ok e) (user_file st)) (sender_id ev)")
    case None
    then show ?thesis using assms by (auto simp: command_user_file)
  next
    case (Some u)
    from assms consider
      (nickname) "operation = Nickname_command e ev v"
      | (birthday) "operation = Birthday_command e ev v"
      | (gender) "operation = Gender_command e ev v"
      by blast
    then show ?thesis
    proof cases
      case nickname
      then show ?thesis
        using Some saved [of "AList.update (sender_id ev)
                                (AList.update (ascii ''nickname'') (PStr v) u)
                                (load_user_info (user_read_ok e) (user_file st))"]
        by (simp add: command_user_file(1)) blast
    next
      case birthday
      then show ?thesis
        using Some saved [of "AList.update (sender_id ev)
                                (AList.update (ascii ''birthday'') (PStr v) u)
                                (load_user_info (user_read_ok e) (user_file st))"]
        by (simp add: command_user_file(3)) blast
    next
      case gender
      then show ?thesis
        using Some saved [of "AList.update (sender_id ev)
                                (AList.update (ascii ''gender'') (PStr v) u)
                                (load_user_info (user_read_ok e) (user_file st))"]
        by (simp add: command_user_file(2)) blast
    qed
  qed
qed

lemma command_keeps_ids:
  assumes "undisturbed py operation st"
    and "operation = Nickname_command e ev v \<or> operation = Birthday_command e ev v
         \<or> operation = Gender_command e ev v"
  shows "user_ids (apply_operation py operation st) = user_ids st"
proof -
  have ok: "user_read_ok e"
    using assms by (auto simp: undisturbed_def)
  have kept: "user_file (apply_operation py operation st) = Unreadable
              \<Longrightarrow> user_file st = Unreadable"
    using assms(1) by (auto simp: undisturbed_def)
  consider
    (same) "user_file (apply_operation py operation st) = user_file st"
    | (cut) "user_file (apply_operation py operation st) = Unreadable"
    | (put) u w where "map_of (load_user_info True (user_file st)) (sender_id ev) = Some u"
        and "user_file (apply_operation py operation st)
             = Holds (AList.update (sender_id ev) w (load_user_info True (user_file st)))"
    using command_user_file_cases [OF assms(2), of py st] ok by auto
  then show ?thesis
  proof cases
    case same
    then show ?thesis by (simp add: user_ids_def)
  next
    case cut
    then show ?thesis using kept ids_Unreadable [of st]
      by (simp add: user_ids_def load_user_info_def)
  next
    case put
    from put(1) have "sender_id ev \<in> fst ` set (load_user_info True (user_file st))"
      by (metis map_of_None_ids option.distinct(1))
    then show ?thesis using put(2)
      by (auto simp: user_ids_def load_user_info_def dom_update)
  qed
qed

text \<open>
  Claim C6, as far as it holds. No operation drops a key from the table it loaded. Along
  every run of request hooks and edit commands in which each read of the user-info file
  goes through and no write leaves a cut-off file where a readable one was, the set of
  user ids that have a record only grows. The hook adds a record for a sender that has
  none when the message comes from \<open>aiocqhttp\<close> and the write completes with a table that
  the writer can encode; it leaves the file alone for a sender that has one, and the whole
  state alone on any other platform. An edit command that goes through undisturbed keeps
  the set of ids as it is.
\<close>

theorem user_records_kept:
  "(undisturbed_run py operations st \<longrightarrow> user_ids st \<subseteq> user_ids (run py operations st))
   \<and> (platform_name newcomer = ascii ''aiocqhttp'' \<and> user_read_ok e
        \<and> sender_id newcomer \<notin> user_ids st \<and> user_write e = Completed
        \<and> table_encodable
             (AList.update (sender_id newcomer)
                (get_qq_user_info py newcomer (sender_id newcomer) True)
                (load_user_info True (user_file st)))
      \<longrightarrow> user_ids (fst (on_llm_request_hook py e newcomer req st))
          = insert (sender_id newcomer) (user_ids st))
   \<and> (user_read_ok e \<and> sender_id ev \<in> user_ids st
      \<longrightarrow> user_file (fst (on_llm_request_hook py e ev req st)) = user_file st)
   \<and> (platform_name elsewhere \<noteq> ascii ''aiocqhttp''
      \<longrightarrow> fst (on_llm_request_hook py e elsewhere req st) = st)
   \<and> (undisturbed py (Nickname_command e ev v) st
      \<longrightarrow> user_ids (snd (update_nickname e ev v st)) = user_ids st)
   \<and> (undisturbed py (Birthday_command e ev v) st
      \<longrightarrow> user_ids (snd (update_birthday py e ev v st)) = user_ids st)
   \<and> (undisturbed py (Gender_command e ev v) st
      \<longrightarrow> user_ids (snd (update_gender e ev v st)) = user_ids st)"
proof (intro conjI impI)
  assume "undisturbed_run py operations st"
  then show "user_ids st \<subseteq> user_ids (run py operations st)"
    by (rule undisturbed_run_ids)
next
  assume "platform_name newcomer = ascii ''aiocqhttp'' \<and> user_read_ok e
          \<and> sender_id newcomer \<notin> user_ids st \<and> user_write e = Completed
          \<and> table_encodable
               (AList.update (sender_id newcomer)
                  (get_qq_user_info py newcomer (sender_id newcomer) True)
                  (load_user_info True (user_file st)))"
  then show "user_ids (fst (on_llm_request_hook py e newcomer req st))
             = insert (sender_id newcomer) (user_ids st)"
    by (simp add: hook_adds_record)
next
  assume "user_read_ok e \<and> sender_id ev \<in> user_ids st"
  then show "user_file (fst (on_llm_request_hook py e ev req st)) = user_file st"
    by (simp add: hook_keeps_known)
next
  assume "platform_name elsewhere \<noteq> ascii ''aiocqhttp''"
  then show "fst (on_llm_request_hook py e elsewhere req st) = st"
    by (simp add: on_llm_request_hook_def)
next
  assume "undisturbed py (Nickname_command e ev v) st"
  from command_keeps_ids [OF this, of e ev v]
  show "user_ids (snd (update_nickname e ev v st)) = user_ids st"
    by simp
next
  assume "undisturbed py (Birthday_command e ev v) st"
  from command_keeps_ids [OF this, of e ev v]
  show "user_ids (snd (update_birthday py e ev v st)) = user_ids st"
    by simp
next
  assume "undisturbed py (Gender_command e ev v) st"
  from command_keeps_ids [OF this, of e ev v]
  show "user_ids (snd (update_gender e ev v st)) = user_ids st"
    by simp
qed

lemmas file_eval = undisturbed_def hook_user_file command_user_file user_ids_def
  load_user_info_def save_user_info_def table_encodable_def dict_encodable_def
  str_encodable_def is_surrogate_def get_qq_user_info_def with_group_fields_def
  parse_birthday_def get_gender_text_def dict_get_def dict_get_default_def
  validate_birthday_def example_env_def example_event_def example_state_def
  example_python_def str_int_def str_nat.simps digit_char_def male_text_def female_text_def
  unknown_def Let_def int_defs

theorem user_records_kept_witness:
  "undisturbed_run example_python
     [Llm_request example_env (example_event (ascii ''9'')) example_request,
      Nickname_command example_env (example_event (ascii ''5'')) (ascii ''Zed''),
      Birthday_command example_env (example_event (ascii ''9'')) (ascii ''1999-13-01'')]
     example_state
   \<and> user_ids example_state
     \<subseteq> user_ids (run example_python
         [Llm_request example_env (example_event (ascii ''9'')) example_request,
          Nickname_command example_env (example_event (ascii ''5'')) (ascii ''Zed''),
          Birthday_command example_env (example_event (ascii ''9'')) (ascii ''1999-13-01'')]
         example_state)
   \<and> user_ids example_state = {ascii ''5''}
   \<and> user_ids (fst (on_llm_request_hook example_python example_env
                      (example_event (ascii ''9'')) example_request example_state))
     = {ascii ''9'', ascii ''5''}
   \<and> user_file (fst (on_llm_request_hook example_python example_env
                       (example_event (ascii ''5'')) example_request example_state))
     = user_file example_state
   \<and> fst (on_llm_request_hook example_python example_env
            ((example_event (ascii ''9'')) \<lparr>platform_name := ascii ''telegram''\<rparr>)
            example_request example_state)
     = example_state
   \<and> undisturbed example_python
       (Nickname_command example_env (example_event (ascii ''5'')) (ascii ''2000-02-03''))
       example_state
   \<and> user_ids (snd (update_nickname example_env (example_event (ascii ''5''))
                      (ascii ''2000-02-03'') example_state))
     = {ascii ''5''}
   \<and> undisturbed example_python
       (Birthday_command example_env (example_event (ascii ''5'')) (ascii ''2000-02-03''))
       example_state
   \<and> user_ids (snd (update_birthday example_python example_env (example_event (ascii ''5''))
                      (ascii ''2000-02-03'') example_state))
     = {ascii ''5''}
   \<and> undisturbed example_python
       (Gender_command example_env (example_event (ascii ''5'')) (ascii ''2000-02-03''))
       example_state
   \<and> user_ids (snd (update_gender example_env (example_event (ascii ''5''))
                      (ascii ''2000-02-03'') example_state))
     = {ascii ''5''}"
proof -
  have ids: "user_ids example_state = {ascii ''5''}"
    by (simp add: user_ids_def load_user_info_def example_state_def)
  have run: "undisturbed_run example_python
     [Llm_request example_env (example_event (ascii ''9'')) example_request,
      Nickname_command example_env (example_event (ascii ''5'')) (ascii ''Zed''),
      Birthday_command example_env (example_event (ascii ''9'')) (ascii ''1999-13-01'')]
     example_state"
    by (simp add: file_eval)
  have newcomer: "platform_name (example_event (ascii ''9'')) = ascii ''aiocqhttp''
      \<and> user_read_ok example_env
      \<and> sender_id (example_event (ascii ''9'')) \<notin> user_ids example_state
      \<and> user_write example_env = Completed
      \<and> table_encodable
           (AList.update (sender_id (example_event (ascii ''9'')))
              (get_qq_user_info example_python (example_event (ascii ''9''))
                 (sender_id (example_event (ascii ''9''))) True)
              (load_user_info True (user_file example_state)))"
    by (simp add: file_eval)
  have known: "user_read_ok example_env
      \<and> sender_id (example_event (ascii ''5'')) \<in> user_ids example_state"
    by (simp add: file_eval)
  have elsewhere:
    "platform_name ((example_event (ascii ''9'')) \<lparr>platform_name := ascii ''telegram''\<rparr>)
     \<noteq> ascii ''aiocqhttp''"
    by simp
  have nickname: "undisturbed example_python
       (Nickname_command example_env (example_event (ascii ''5'')) (ascii ''2000-02-03''))
       example_state"
    by (simp add: file_eval)
  have birthday: "undisturbed example_python
       (Birthday_command example_env (example_event (ascii ''5'')) (ascii ''2000-02-03''))
       example_state"
    by (simp add: file_eval)
  have gender: "undisturbed example_python
       (Gender_command example_env (example_event (ascii ''5'')) (ascii ''2000-02-03''))
       example_state"
    by (simp add: file_eval)
  have nine: "sender_id (example_event (ascii ''9'')) = ascii ''9''"
    by (simp add: example_event_def)
  show ?thesis
    using user_records_kept
      [of example_python
          "[Llm_request example_env (example_event (ascii ''9'')) example_request,
            Nickname_command example_env (example_event (ascii ''5'')) (ascii ''Zed''),
            Birthday_command example_env (example_event (ascii ''9'')) (ascii ''1999-13-01'')]"
          example_state "example_event (ascii ''9'')" example_env example_request
          "example_event (ascii ''5'')"
          "(example_event (ascii ''9'')) \<lparr>platform_name := ascii ''telegram''\<rparr>"
          "ascii ''2000-02-03''"]
      ids run newcomer known elsewhere nickname birthday gender nine
    by simp
qed

text \<open>
  Claim C6 as stated does not hold. \<open>save_user_info\<close> empties the file when it opens it, so
  a write that fails afterwards loses every record. A nickname with a lone surrogate is
  enough: the command stores it in the table, the writer refuses it, and the file that is
  left loads as the empty table, although the read went through and nothing outside the
  program failed. Nor does the hook add a record for a message from another platform.
\<close>

theorem user_record_lost_counterexample:
  "user_ids example_state = {ascii ''5''}
   \<and> user_read_ok example_env \<and> user_write example_env = Completed
   \<and> user_ids (run example_python
                 [Nickname_command example_env (example_event (ascii ''5'')) [0xD800]]
                 example_state) = {}
   \<and> \<not> user_ids example_state
        \<subseteq> user_ids (run example_python
                      [Nickname_command example_env (example_event (ascii ''5'')) [0xD800]]
                      example_state)
   \<and> user_ids (fst (on_llm_request_hook example_python example_env
                      ((example_event (ascii ''9'')) \<lparr>platform_name := ascii ''telegram''\<rparr>)
                      example_request example_state))
     = {ascii ''5''}"
proof -
  have ids: "user_ids example_state = {ascii ''5''}"
    by (simp add: user_ids_def load_user_info_def example_state_def)
  have lost: "user_file (snd (update_nickname example_env (example_event (ascii ''5''))
                                [0xD800] example_state)) = Unreadable"
    by (simp add: file_eval)
  have elsewhere: "fst (on_llm_request_hook example_python example_env
                      ((example_event (ascii ''9'')) \<lparr>platform_name := ascii ''telegram''\<rparr>)
                      example_request example_state) = example_state"
    by (simp add: on_llm_request_hook_def example_event_def)
  show ?thesis
    using ids lost elsewhere
    by (simp add: ids_Unreadable example_env_def)
qed

end
